theory Spec2Isabelle
  imports Complex_Main "HOL-Library.Multiset"
begin

section \<open>The training script \<^verbatim>\<open>train/sex_det/sd01a.py\<close>\<close>

text \<open>
  The script discovers volume files under class-labelled directories, loads them into
  memory with their labels, shuffles them, wraps them in batch generators, assembles a
  3D residual network out of framework layers and hands everything to the framework's
  training loop. The embedding below follows the script function by function and keeps
  its names. What the script delegates to a library (the file system, \<^verbatim>\<open>numpy\<close>,
  \<^verbatim>\<open>sklearn\<close>, \<^verbatim>\<open>keras\<close>) enters either as a parameter of the model or as a
  symbolic call, and every place where that happens is marked.
\<close>

subsection \<open>Exceptions\<close>

text \<open>
  The script has no \<^verbatim>\<open>try\<close>: every exception ends the run. A function that can
  raise returns \<open>error + 'a\<close>, with \<open>Inl\<close> for the exception.
\<close>

datatype error =
    FileNotFoundError string
  | NotADirectoryError string
  | NameError string
  | ValueError string
  | IndexError string
  | ZeroDivisionError string
  | OSError string

subsection \<open>Paths and the directory tree\<close>

text \<open>\<^verbatim>\<open>str.endswith\<close> and \<^verbatim>\<open>posixpath.join\<close> for two arguments.\<close>

definition endswith :: "string \<Rightarrow> string \<Rightarrow> bool" where
  "endswith s suffix =
     (length suffix \<le> length s \<and> drop (length s - length suffix) s = suffix)"

definition os_path_join :: "string \<Rightarrow> string \<Rightarrow> string" where
  "os_path_join a b =
     (if b \<noteq> [] \<and> hd b = CHR ''/'' then b
      else if a = [] \<or> last a = CHR ''/'' then a @ b
      else a @ ''/'' @ b)"

text \<open>
  What \<^verbatim>\<open>os.scandir\<close> shows of a directory: its entries by name, each a file
  (\<^verbatim>\<open>is_file()\<close> holds), a directory (\<^verbatim>\<open>is_dir()\<close> holds) with entries of its
  own, or something that is neither. The tree is finite and has no cycle, which is the
  spec's own assumption about the file system.
\<close>

datatype node = File | Dir "(string \<times> node) list" | Other

fun is_file :: "node \<Rightarrow> bool" where
  "is_file File = True"
| "is_file _ = False"

fun is_dir :: "node \<Rightarrow> bool" where
  "is_dir (Dir _) = True"
| "is_dir _ = False"

subsection \<open>File discovery: \<^verbatim>\<open>get_data_files\<close>\<close>

text \<open>
  \<^verbatim>\<open>
  def get_data_files(root):
      for item in os.scandir(root):
          if item.is_file() and item.path.endswith('.npy'):
              yield item.path
          elif item.is_dir():
              yield from get_data_files(item.path)
  \<close>
  \<open>get_data_files root_dir n\<close> is the list the generator yields when \<open>n\<close> is what the
  path \<open>root_dir\<close> names; \<open>scan_items\<close> is the \<^verbatim>\<open>for\<close> loop over the entries that
  are left. \<^verbatim>\<open>os.scandir\<close> raises on a path that is not a directory. The argument is
  called \<open>root_dir\<close> because \<open>root\<close> is the n-th root of the reals.
\<close>

fun get_data_files :: "string \<Rightarrow> node \<Rightarrow> error + string list"
  and scan_items :: "string \<Rightarrow> (string \<times> node) list \<Rightarrow> error + string list" where
  "get_data_files root_dir (Dir items) = scan_items root_dir items"
| "get_data_files root_dir File = Inl (NotADirectoryError root_dir)"
| "get_data_files root_dir Other = Inl (NotADirectoryError root_dir)"
| "scan_items root_dir [] = Inr []"
| "scan_items root_dir ((name, item) # rest) =
     (let path = os_path_join root_dir name in
      if is_file item \<and> endswith path ''.npy'' then
        (case scan_items root_dir rest of
           Inl e \<Rightarrow> Inl e
         | Inr qs \<Rightarrow> Inr (path # qs))
      else if is_dir item then
        (case get_data_files path item of
           Inl e \<Rightarrow> Inl e
         | Inr ps \<Rightarrow>
             (case scan_items root_dir rest of
                Inl e \<Rightarrow> Inl e
              | Inr qs \<Rightarrow> Inr (ps @ qs)))
      else scan_items root_dir rest)"

text \<open>
  The specification's side: \<open>entry_below root_dir n p x\<close> says that the tree \<open>n\<close> at
  path \<open>root_dir\<close> has, at some depth, the entry \<open>x\<close> under the path \<open>p\<close>.
\<close>

inductive entry_below :: "string \<Rightarrow> node \<Rightarrow> string \<Rightarrow> node \<Rightarrow> bool" where
  here: "(name, item) \<in> set items \<Longrightarrow>
     entry_below root_dir (Dir items) (os_path_join root_dir name) item"
| deeper: "(name, Dir sub) \<in> set items \<Longrightarrow>
     entry_below (os_path_join root_dir name) (Dir sub) p item \<Longrightarrow>
     entry_below root_dir (Dir items) p item"

code_pred entry_below .

text \<open>
  A directory tree as a file system has it: within one directory the names are
  distinct, and a name is not empty and has no \<^verbatim>\<open>/\<close> in it. \<open>dir_prefix r\<close> is
  what \<^verbatim>\<open>posixpath.join\<close> puts in front of such a name.
\<close>

fun wf_tree :: "node \<Rightarrow> bool"
  and wf_items :: "(string \<times> node) list \<Rightarrow> bool" where
  "wf_tree (Dir items) = (distinct (map fst items) \<and> wf_items items)"
| "wf_tree File = True"
| "wf_tree Other = True"
| "wf_items [] = True"
| "wf_items ((name, item) # rest) =
     (name \<noteq> [] \<and> CHR ''/'' \<notin> set name \<and> wf_tree item \<and> wf_items rest)"

definition dir_prefix :: "string \<Rightarrow> string" where
  "dir_prefix r = (if r = [] \<or> last r = CHR ''/'' then r else r @ ''/'')"

subsection \<open>The world outside the script\<close>

text \<open>
  What a run reads from its environment, as parameters of the model:
  \<^item> \<open>tree_at p\<close>: the directory tree the path \<open>p\<close> names, if it names anything;
  \<^item> \<open>np_load p\<close>: what \<^verbatim>\<open>np.load\<close> returns for the file \<open>p\<close>, or the exception;
  \<^item> \<open>np_zeros s\<close>: one row of \<^verbatim>\<open>np.zeros((total, *s))\<close>;
  \<^item> \<open>np_assign s v\<close>: the row that \<^verbatim>\<open>X[i, :, :, :, :] = v\<close> leaves in an array
    whose rows have shape \<open>s\<close>, or the exception numpy raises when \<open>v\<close> does not fit;
  \<^item> \<open>read_text p\<close>: the text of the file \<open>p\<close> when \<^verbatim>\<open>open(p, 'r')\<close> succeeds;
  \<^item> \<open>json_load t\<close>: what \<^verbatim>\<open>json.load\<close> makes of the text \<open>t\<close>;
  \<^item> \<open>abspath p\<close>: \<^verbatim>\<open>os.path.abspath(p)\<close>, which depends on the working directory;
  \<^item> \<open>os_makedirs p\<close>: whether \<^verbatim>\<open>os.makedirs(p, exist_ok=True)\<close> succeeds, or the
    exception.

  A volume is a value of the type \<open>'v\<close>; its numbers play no part in the script.
  An image shape is a tuple of non-negative integers.
\<close>

record 'v world =
  tree_at :: "string \<Rightarrow> node option"
  np_load :: "string \<Rightarrow> error + 'v"
  np_zeros :: "nat list \<Rightarrow> 'v"
  np_assign :: "nat list \<Rightarrow> 'v \<Rightarrow> error + 'v"
  read_text :: "string \<Rightarrow> string option"
  json_load :: "string \<Rightarrow> error + (string \<times> string) list"
  abspath :: "string \<Rightarrow> string"
  os_makedirs :: "string \<Rightarrow> error + unit"

text \<open>\<^verbatim>\<open>list(get_data_files(path))\<close>, with the path looked up in the world.\<close>

definition list_data_files :: "'v world \<Rightarrow> string \<Rightarrow> error + string list" where
  "list_data_files w path =
     (case tree_at w path of
        None \<Rightarrow> Inl (FileNotFoundError path)
      | Some n \<Rightarrow> get_data_files path n)"

subsection \<open>Data assembly: \<^verbatim>\<open>create_data_generators\<close>\<close>

text \<open>
  The loop
  \<^verbatim>\<open>
      for i, f in enumerate(train_neg_files + train_pos_files):
          volume = np.load(f)
          X_train[i, :, :, :, :] = volume
  \<close>
  over what is left of the enumeration. The index is always in range, since the array
  was made with one row per file.
\<close>

fun load_volumes ::
  "'v world \<Rightarrow> nat list \<Rightarrow> 'v list \<Rightarrow> (nat \<times> string) list \<Rightarrow> error + 'v list" where
  "load_volumes w image_shape X [] = Inr X"
| "load_volumes w image_shape X ((i, f) # rest) =
     (case np_load w f of
        Inl e \<Rightarrow> Inl e
      | Inr volume \<Rightarrow>
          (case np_assign w image_shape volume of
             Inl e \<Rightarrow> Inl e
           | Inr row \<Rightarrow> load_volumes w image_shape (X[i := row]) rest))"

text \<open>\<^verbatim>\<open>.astype(np.bool)\<close> on an array of floats: a number is true unless it is zero.\<close>

definition astype_bool :: "real list \<Rightarrow> bool list" where
  "astype_bool a = map (\<lambda>v. v \<noteq> 0) a"

text \<open>
  Lines 35 to 42 of the script, which lines 45 to 52 repeat for the validation
  directory: list the files of the two label directories, load them into \<open>X\<close> in that
  order, and build \<open>y\<close> by \<^verbatim>\<open>np.hstack((np.zeros(len(neg)), np.ones(len(pos))))\<close>.
  The result is the pair before the shuffle.
\<close>

definition load_split ::
  "'v world \<Rightarrow> string \<Rightarrow> nat list \<Rightarrow> error + ('v list \<times> bool list)" where
  "load_split w dir image_shape =
     (case list_data_files w (os_path_join dir ''0'') of
        Inl e \<Rightarrow> Inl e
      | Inr neg_files \<Rightarrow>
     (case list_data_files w (os_path_join dir ''1'') of
        Inl e \<Rightarrow> Inl e
      | Inr pos_files \<Rightarrow>
     (let total = length neg_files + length pos_files;
          X = replicate total (np_zeros w image_shape)
      in case load_volumes w image_shape X (enumerate 0 (neg_files @ pos_files)) of
           Inl e \<Rightarrow> Inl e
         | Inr X \<Rightarrow>
             Inr (X, astype_bool
                       (replicate (length neg_files) 0 @ replicate (length pos_files) 1)))))"

text \<open>
  \<^verbatim>\<open>sklearn.utils.shuffle(X, y)\<close> is library code: it checks that the arrays have the
  same number of rows, draws one random order of the row indices and indexes every
  array with it. The drawn order is the parameter \<open>indices\<close>; an index out of range
  raises, as numpy's indexing does.
\<close>

definition sklearn_shuffle ::
  "nat list \<Rightarrow> 'a list \<Rightarrow> 'b list \<Rightarrow> error + ('a list \<times> 'b list)" where
  "sklearn_shuffle indices X y =
     (if length X \<noteq> length y then
        Inl (ValueError ''Found input variables with inconsistent numbers of samples'')
      else if \<exists>i \<in> set indices. length X \<le> i then
        Inl (IndexError ''index out of bounds'')
      else Inr (map (\<lambda>i. X ! i) indices, map (\<lambda>i. y ! i) indices))"

text \<open>
  \<^verbatim>\<open>ImageDataGenerator\<close> comes from \<^verbatim>\<open>helper/preprocessing_3d.py\<close>, which is not
  among the sources. A generator object is kept as the keyword arguments the script
  passes to the constructor, and \<^verbatim>\<open>flow\<close> as a record of its arguments.
\<close>

datatype pyval = Num real | Flag bool

datatype datagen = ImageDataGenerator "(string \<times> pyval) list"

record 'v flow_call =
  flow_datagen :: datagen
  flow_X :: "'v list"
  flow_y :: "bool list"
  flow_batch_size :: int

definition flow :: "datagen \<Rightarrow> 'v list \<Rightarrow> bool list \<Rightarrow> int \<Rightarrow> 'v flow_call" where
  "flow g X y batch_size =
     \<lparr>flow_datagen = g, flow_X = X, flow_y = y, flow_batch_size = batch_size\<rparr>"

text \<open>
  \<open>draw_train\<close> and \<open>draw_val\<close> are the index orders the two shuffles draw.
\<close>

definition create_data_generators ::
  "'v world \<Rightarrow> nat list \<Rightarrow> nat list \<Rightarrow> string \<Rightarrow> string \<Rightarrow> nat list \<Rightarrow> int \<Rightarrow>
     error + ('v flow_call \<times> 'v flow_call)" where
  "create_data_generators w draw_train draw_val train_dir val_dir image_shape batch_size =
     (let train_datagen = ImageDataGenerator
            [(''rotation_range'', Num 30),
             (''width_shift_range'', Num 0.125),
             (''height_shift_range'', Num 0.125),
             (''depth_shift_range'', Num 0.125),
             (''zoom_range'', Num 0.125),
             (''horizontal_flip'', Flag True),
             (''vertical_flip'', Flag False),
             (''depth_flip'', Flag False)];
          val_datagen = ImageDataGenerator []
      in case load_split w train_dir image_shape of
           Inl e \<Rightarrow> Inl e
         | Inr (X_train, y_train) \<Rightarrow>
        (case sklearn_shuffle draw_train X_train y_train of
           Inl e \<Rightarrow> Inl e
         | Inr (X_train, y_train) \<Rightarrow>
        (case load_split w val_dir image_shape of
           Inl e \<Rightarrow> Inl e
         | Inr (X_val, y_val) \<Rightarrow>
        (case sklearn_shuffle draw_val X_val y_val of
           Inl e \<Rightarrow> Inl e
         | Inr (X_val, y_val) \<Rightarrow>
             Inr (flow train_datagen X_train y_train batch_size,
                  flow val_datagen X_val y_val batch_size)))))"

text \<open>
  The specification's side: the row that ends up in \<open>X\<close> for the file \<open>f\<close>.
\<close>

definition stored_row :: "'v world \<Rightarrow> nat list \<Rightarrow> string \<Rightarrow> error + 'v" where
  "stored_row w image_shape f =
     (case np_load w f of
        Inl e \<Rightarrow> Inl e
      | Inr volume \<Rightarrow> np_assign w image_shape volume)"

text \<open>
  The specification's side. \<open>ordered_by_label\<close> is the state before the shuffle as the
  claim describes it: \<open>y\<close> is one \<open>False\<close> per file listed under \<^verbatim>\<open>0\<close> followed
  by one \<open>True\<close> per file listed under \<^verbatim>\<open>1\<close>, and the rows of \<open>X\<close> are the rows
  stored for these files, in the same order. \<open>labelled_by_directory\<close> is what holds
  in any order: \<open>X\<close> and \<open>y\<close> have the same length, and every row is the row stored for
  some file listed under the subdirectory that its label names.
\<close>

definition ordered_by_label ::
  "'v world \<Rightarrow> nat list \<Rightarrow> string \<Rightarrow> 'v list \<Rightarrow> bool list \<Rightarrow> bool" where
  "ordered_by_label w image_shape dir X y =
     (case (list_data_files w (os_path_join dir ''0''),
            list_data_files w (os_path_join dir ''1'')) of
        (Inr neg_files, Inr pos_files) \<Rightarrow>
          y = replicate (length neg_files) False @ replicate (length pos_files) True \<and>
          map (stored_row w image_shape) (neg_files @ pos_files) = map Inr X
      | _ \<Rightarrow> False)"

definition labelled_by_directory ::
  "'v world \<Rightarrow> nat list \<Rightarrow> string \<Rightarrow> 'v list \<Rightarrow> bool list \<Rightarrow> bool" where
  "labelled_by_directory w image_shape dir X y =
     (length y = length X \<and>
      list_all (\<lambda>i.
         case list_data_files w (os_path_join dir (if y ! i then ''1'' else ''0'')) of
           Inl e \<Rightarrow> False
         | Inr files \<Rightarrow> list_ex (\<lambda>f. stored_row w image_shape f = Inr (X ! i)) files)
        [0..<length X])"

subsection \<open>The network: \<^verbatim>\<open>res_block\<close> and \<^verbatim>\<open>define_model\<close>\<close>

text \<open>
  The script builds a graph of layer objects and computes nothing itself. A layer is
  kept with the arguments the script gives it: \<open>Convolution3D nb_filter kernel_dim1
  kernel_dim2 kernel_dim3 subsample border_mode\<close>, \<open>BatchNormalization axis\<close>,
  \<open>Activation name\<close>, \<open>AveragePooling3D pool_size\<close>, \<open>Flatten\<close> and
  \<open>Dense output_dim activation name\<close>. A tensor is the input, a layer called on a
  tensor, or \<^verbatim>\<open>merge(tensors, mode=...)\<close>. The framework checks every layer call
  and every merge while the graph is built and raises when it does not accept one.
  These checks are not part of the graph: \<open>shape_of\<close> further down computes them,
  and \<open>res_block_call\<close> is the call of \<^verbatim>\<open>res_block\<close> with them.
\<close>

datatype layer =
    Convolution3D int int int int "int \<times> int \<times> int" string
  | BatchNormalization int
  | Activation string
  | AveragePooling3D "int \<times> int \<times> int"
  | Flatten
  | Dense int string string

datatype tensor = Input "nat list" | Call layer tensor | Merge "tensor list" string

text \<open>
  \<^verbatim>\<open>res_block(input_tensor, nb_filters=16, block=0, subsample_factor=1)\<close>; the
  script passes every argument at every call. The argument \<open>block\<close> is not used.
  \<open>res_block\<close> is the graph the function builds when the framework accepts every
  call in it.
\<close>

definition res_block :: "tensor \<Rightarrow> int \<Rightarrow> int \<Rightarrow> int \<Rightarrow> tensor" where
  "res_block input_tensor nb_filters block subsample_factor =
     (let subsample = (subsample_factor, subsample_factor, subsample_factor);
          x = Call (BatchNormalization 4) input_tensor;
          x = Call (Activation ''relu'') x;
          x = Call (Convolution3D nb_filters 3 3 3 subsample ''same'') x;
          x = Call (BatchNormalization 4) x;
          x = Call (Activation ''relu'') x;
          x = Call (Convolution3D nb_filters 3 3 3 (1, 1, 1) ''same'') x;
          shortcut =
            (if subsample_factor > 1
             then Call (Convolution3D nb_filters 1 1 1 subsample ''same'') input_tensor
             else input_tensor)
      in Merge [x, shortcut] ''sum'')"

record model =
  model_input :: tensor
  model_output :: tensor
  optimizer :: string
  loss :: string
  metrics :: "string list"

text \<open>\<^verbatim>\<open>model.summary()\<close> only prints and is left out.\<close>

definition define_model :: "nat list \<Rightarrow> model" where
  "define_model image_shape =
     (let img_input = Input image_shape;
          x = Call (Convolution3D 16 5 5 5 (1, 1, 1) ''same'') img_input;
          x = res_block x 16 0 1;
          x = res_block x 16 0 1;
          x = res_block x 16 0 1;
          x = res_block x 32 1 2;
          x = res_block x 32 1 1;
          x = res_block x 32 1 1;
          x = res_block x 64 2 2;
          x = res_block x 64 2 1;
          x = res_block x 64 2 1;
          x = res_block x 128 3 2;
          x = res_block x 128 3 1;
          x = res_block x 128 3 1;
          x = Call (BatchNormalization 4) x;
          x = Call (Activation ''relu'') x;
          x = Call (AveragePooling3D (4, 4, 8)) x;
          x = Call Flatten x;
          x = Call (Dense 1 ''sigmoid'' ''predictions'') x
      in \<lparr>model_input = img_input, model_output = x, optimizer = ''adam'',
          loss = ''binary_crossentropy'',
          metrics = [''accuracy'', ''precision'', ''recall'', ''fmeasure'']\<rparr>)"

text \<open>
  The specification's side, in the words of the description of a residual block:
  normalization, nonlinearity, a 3x3x3 convolution with a stride, a 1x1x1 projection
  with a stride, and the elementwise sum of two paths.
\<close>

definition batch_norm :: "tensor \<Rightarrow> tensor" where
  "batch_norm t = Call (BatchNormalization 4) t"

definition relu :: "tensor \<Rightarrow> tensor" where
  "relu t = Call (Activation ''relu'') t"

definition conv3x3x3 :: "int \<Rightarrow> int \<Rightarrow> tensor \<Rightarrow> tensor" where
  "conv3x3x3 nb_filters stride t =
     Call (Convolution3D nb_filters 3 3 3 (stride, stride, stride) ''same'') t"

definition projection1x1x1 :: "int \<Rightarrow> int \<Rightarrow> tensor \<Rightarrow> tensor" where
  "projection1x1x1 nb_filters stride t =
     Call (Convolution3D nb_filters 1 1 1 (stride, stride, stride) ''same'') t"

definition transformed_path :: "int \<Rightarrow> int \<Rightarrow> tensor \<Rightarrow> tensor" where
  "transformed_path nb_filters stride t =
     conv3x3x3 nb_filters 1 (relu (batch_norm
       (conv3x3x3 nb_filters stride (relu (batch_norm t)))))"

definition elementwise_sum :: "tensor \<Rightarrow> tensor \<Rightarrow> tensor" where
  "elementwise_sum a b = Merge [a, b] ''sum''"

text \<open>
  Reading a graph back. \<open>layer_at n t\<close> is the layer \<open>n\<close> calls below the top of
  \<open>t\<close>. A residual block ends in a merge whose first branch is the transformed path;
  \<open>block_of\<close> reads from that branch the width of the block (the filters of its last
  convolution) and its stride (the subsample of its first convolution, three layers
  further down). \<open>blocks t\<close> lists the blocks on the way from the input to \<open>t\<close>.
\<close>

fun layer_at :: "nat \<Rightarrow> tensor \<Rightarrow> layer option" where
  "layer_at 0 (Call l t) = Some l"
| "layer_at (Suc n) (Call l t) = layer_at n t"
| "layer_at n _ = None"

definition block_of :: "tensor \<Rightarrow> (int \<times> int \<times> int \<times> int) option" where
  "block_of x =
     (case (layer_at 0 x, layer_at 3 x) of
        (Some (Convolution3D nf k1 k2 k3 sub bm),
         Some (Convolution3D nf' k1' k2' k3' sub' bm')) \<Rightarrow> Some (nf, sub')
      | _ \<Rightarrow> None)"

fun blocks :: "tensor \<Rightarrow> (int \<times> int \<times> int \<times> int) option list" where
  "blocks (Input s) = []"
| "blocks (Call l t) = blocks t"
| "blocks (Merge [] m) = []"
| "blocks (Merge (x # rest) m) = blocks x @ [block_of x]"

text \<open>
  The blocks of one stage are those of one width; a block is strided when its stride
  is not 1 in every direction.
\<close>

definition stage_strides :: "int \<Rightarrow> tensor \<Rightarrow> (int \<times> int \<times> int) list" where
  "stage_strides width t =
     map snd (filter (\<lambda>b. fst b = width) (List.map_filter (\<lambda>b. b) (blocks t)))"

definition strided_blocks :: "int \<Rightarrow> tensor \<Rightarrow> nat" where
  "strided_blocks width t =
     length (filter (\<lambda>sub. sub \<noteq> (1, 1, 1)) (stage_strides width t))"

text \<open>
  The architecture in the words of the description: an initial convolution, stages of
  three blocks of one width whose first block has the stage's stride, and the head
  (normalization, nonlinearity, pooling, flattening, one sigmoid unit).
\<close>

definition initial_convolution :: "tensor \<Rightarrow> tensor" where
  "initial_convolution t = Call (Convolution3D 16 5 5 5 (1, 1, 1) ''same'') t"

definition stage :: "int \<Rightarrow> int \<Rightarrow> int \<Rightarrow> tensor \<Rightarrow> tensor" where
  "stage width block first_stride t =
     res_block (res_block (res_block t width block first_stride) width block 1) width block 1"

definition head :: "tensor \<Rightarrow> tensor" where
  "head t =
     Call (Dense 1 ''sigmoid'' ''predictions'')
       (Call Flatten (Call (AveragePooling3D (4, 4, 8)) (relu (batch_norm t))))"

text \<open>
  The numbers of the framework are floating-point numbers. What matters of them here
  is kept: a number is not-a-number, minus or plus infinity, or finite; arithmetic on
  not-a-number gives not-a-number, as do \<open>\<infinity> - \<infinity>\<close> and \<open>0 * \<infinity>\<close>. Rounding and
  the overflow of finite results are left out.
\<close>

datatype fnum = NaN | NegInf | PosInf | Finite real

fun fadd :: "fnum \<Rightarrow> fnum \<Rightarrow> fnum" where
  "fadd NaN y = NaN"
| "fadd x NaN = NaN"
| "fadd PosInf NegInf = NaN"
| "fadd NegInf PosInf = NaN"
| "fadd PosInf y = PosInf"
| "fadd x PosInf = PosInf"
| "fadd NegInf y = NegInf"
| "fadd x NegInf = NegInf"
| "fadd (Finite a) (Finite b) = Finite (a + b)"

definition inf_times :: "bool \<Rightarrow> real \<Rightarrow> fnum" where
  "inf_times positive a =
     (if a = 0 then NaN else if (0 < a) = positive then PosInf else NegInf)"

fun fmul :: "fnum \<Rightarrow> fnum \<Rightarrow> fnum" where
  "fmul NaN y = NaN"
| "fmul x NaN = NaN"
| "fmul (Finite a) (Finite b) = Finite (a * b)"
| "fmul PosInf (Finite b) = inf_times True b"
| "fmul NegInf (Finite b) = inf_times False b"
| "fmul (Finite a) PosInf = inf_times True a"
| "fmul (Finite a) NegInf = inf_times False a"
| "fmul PosInf PosInf = PosInf"
| "fmul NegInf NegInf = PosInf"
| "fmul PosInf NegInf = NegInf"
| "fmul NegInf PosInf = NegInf"

definition fsum :: "fnum list \<Rightarrow> fnum" where
  "fsum xs = foldl fadd (Finite 0) xs"

definition sigmoid :: "real \<Rightarrow> real" where
  "sigmoid z = 1 / (1 + exp (- z))"

fun sigmoid_f :: "fnum \<Rightarrow> fnum" where
  "sigmoid_f NaN = NaN"
| "sigmoid_f NegInf = Finite 0"
| "sigmoid_f PosInf = Finite 1"
| "sigmoid_f (Finite z) = Finite (sigmoid z)"

fun relu_f :: "fnum \<Rightarrow> fnum" where
  "relu_f NaN = NaN"
| "relu_f NegInf = Finite 0"
| "relu_f PosInf = PosInf"
| "relu_f (Finite z) = Finite (max 0 z)"

definition activation :: "string \<Rightarrow> fnum \<Rightarrow> fnum" where
  "activation name z =
     (if name = ''sigmoid'' then sigmoid_f z
      else if name = ''relu'' then relu_f z
      else z)"

text \<open>
  What a graph computes. The kernels are the framework's, so the value of a layer or
  of a merge is whatever \<open>layer_fn\<close> says for that node of the graph. The one layer
  with a meaning of its own is \<open>Dense\<close>: unit \<open>j\<close> applies the activation to its
  pre-activation, the dot product of the input with its weights \<open>dense_W\<close> plus its
  bias \<open>dense_b\<close>.
\<close>

record params =
  layer_fn :: "tensor \<Rightarrow> fnum list list \<Rightarrow> fnum list"
  dense_W :: "tensor \<Rightarrow> nat \<Rightarrow> fnum list"
  dense_b :: "tensor \<Rightarrow> nat \<Rightarrow> fnum"

definition preactivation :: "params \<Rightarrow> tensor \<Rightarrow> fnum list \<Rightarrow> nat \<Rightarrow> fnum" where
  "preactivation P node x j =
     fadd (fsum (map2 fmul x (dense_W P node j))) (dense_b P node j)"

fun eval_tensor :: "params \<Rightarrow> fnum list \<Rightarrow> tensor \<Rightarrow> fnum list" where
  "eval_tensor P v (Input s) = v"
| "eval_tensor P v (Call (Dense units act name) t) =
     map (\<lambda>j. activation act
            (preactivation P (Call (Dense units act name) t) (eval_tensor P v t) j))
       [0..<nat units]"
| "eval_tensor P v (Call l t) = layer_fn P (Call l t) [eval_tensor P v t]"
| "eval_tensor P v (Merge ts m) = layer_fn P (Merge ts m) (map (eval_tensor P v) ts)"

text \<open>
  The specification's side: a number of the closed interval from 0 to 1, and the
  pre-activation of the output unit of a model, which is what the layer below the
  output gives to unit 0 of the output layer.
\<close>

fun in_unit_interval :: "fnum \<Rightarrow> bool" where
  "in_unit_interval (Finite p) = (0 \<le> p \<and> p \<le> 1)"
| "in_unit_interval _ = False"

fun output_preactivation :: "params \<Rightarrow> fnum list \<Rightarrow> tensor \<Rightarrow> fnum" where
  "output_preactivation P v (Call l t) = preactivation P (Call l t) (eval_tensor P v t) 0"
| "output_preactivation P v _ = NaN"

text \<open>
  The shapes of the tensors, by the framework's rules for channels-last data without
  the batch axis: a convolution or a pooling takes a tensor with three spatial axes
  and a channel axis and gives each spatial axis the length
  \<^verbatim>\<open>(length + stride - 1) // stride\<close> (border mode \<^verbatim>\<open>same\<close>) or
  \<^verbatim>\<open>(length - size + stride) // stride\<close> (border mode \<^verbatim>\<open>valid\<close>, which is the
  pooling's, whose stride is the pool size); normalization and activation keep the
  shape; flattening multiplies the lengths, none of which may be 0; a dense layer on a
  vector gives one number
  per unit; and a merge in mode \<^verbatim>\<open>sum\<close> wants all its inputs to have one shape and
  raises otherwise. Merge modes other than \<^verbatim>\<open>sum\<close> do not occur in the script and
  are given no shape here.
\<close>

definition conv_output_length :: "int \<Rightarrow> int \<Rightarrow> string \<Rightarrow> int \<Rightarrow> error + int" where
  "conv_output_length input_length filter_size border_mode stride =
     (if stride = 0 then Inl (ZeroDivisionError ''integer division or modulo by zero'')
      else Inr (((if border_mode = ''same'' then input_length
                  else input_length - filter_size + 1) + stride - 1) div stride))"

fun those_shapes :: "(error + 'a) list \<Rightarrow> error + 'a list" where
  "those_shapes [] = Inr []"
| "those_shapes (Inl e # rs) = Inl e"
| "those_shapes (Inr s # rs) =
     (case those_shapes rs of Inl e \<Rightarrow> Inl e | Inr ss \<Rightarrow> Inr (s # ss))"

fun layer_shape :: "layer \<Rightarrow> int list \<Rightarrow> error + int list" where
  "layer_shape (Convolution3D nf k1 k2 k3 (s1, s2, s3) bm) [d1, d2, d3, c] =
     (case those_shapes [conv_output_length d1 k1 bm s1, conv_output_length d2 k2 bm s2,
                         conv_output_length d3 k3 bm s3] of
        Inl e \<Rightarrow> Inl e
      | Inr ds \<Rightarrow> Inr (ds @ [nf]))"
| "layer_shape (Convolution3D nf k1 k2 k3 sub bm) s = Inl (ValueError ''expected ndim=5'')"
| "layer_shape (BatchNormalization axis) s =
     (if 0 < axis \<and> axis \<le> int (length s) then Inr s
      else Inl (IndexError ''axis out of range''))"
| "layer_shape (Activation name) s = Inr s"
| "layer_shape (AveragePooling3D (p1, p2, p3)) [d1, d2, d3, c] =
     (case those_shapes [conv_output_length d1 p1 ''valid'' p1,
                         conv_output_length d2 p2 ''valid'' p2,
                         conv_output_length d3 p3 ''valid'' p3] of
        Inl e \<Rightarrow> Inl e
      | Inr ds \<Rightarrow> Inr (ds @ [c]))"
| "layer_shape (AveragePooling3D pool) s = Inl (ValueError ''expected ndim=5'')"
| "layer_shape Flatten s =
     (if length s < 2 then Inl (ValueError ''expected ndim >= 3'')
      else if 0 \<in> set s then
        Inl (ValueError ''The shape of the input to Flatten is not fully defined'')
      else Inr [prod_list s])"
| "layer_shape (Dense units act name) [n] = Inr [units]"
| "layer_shape (Dense units act name) s = Inl (ValueError ''expected ndim=2'')"

definition merge_shape :: "string \<Rightarrow> (error + int list) list \<Rightarrow> error + int list" where
  "merge_shape mode rs =
     (case those_shapes rs of
        Inl e \<Rightarrow> Inl e
      | Inr [] \<Rightarrow> Inl (ValueError ''A Merge should only be applied to a list of layers'')
      | Inr (s # ss) \<Rightarrow>
          if mode = ''sum'' \<and> (\<forall>s' \<in> set ss. s' = s) then Inr s
          else Inl (ValueError ''Only layers of same output shape can be merged''))"

fun shape_of :: "tensor \<Rightarrow> error + int list" where
  "shape_of (Input s) = Inr (map int s)"
| "shape_of (Call l t) = (case shape_of t of Inl e \<Rightarrow> Inl e | Inr s \<Rightarrow> layer_shape l s)"
| "shape_of (Merge ts mode) = merge_shape mode (map shape_of ts)"

text \<open>
  The call of \<^verbatim>\<open>res_block\<close>: the graph when the framework accepts every layer call
  and the merge, and otherwise the exception of the first one it does not accept. The
  calls are checked in the order of the script: the transformed path from the input
  upwards, then the shortcut, then the merge.
\<close>

definition res_block_call :: "tensor \<Rightarrow> int \<Rightarrow> int \<Rightarrow> int \<Rightarrow> error + tensor" where
  "res_block_call input_tensor nb_filters block subsample_factor =
     (case shape_of (res_block input_tensor nb_filters block subsample_factor) of
        Inl e \<Rightarrow> Inl e
      | Inr s \<Rightarrow> Inr (res_block input_tensor nb_filters block subsample_factor))"

subsection \<open>The training driver: \<^verbatim>\<open>train\<close>\<close>

text \<open>
  \<open>ModelCheckpoint filepath monitor verbose save_best_only\<close> and
  \<open>EarlyStopping monitor patience verbose\<close>. The script does not pass \<open>monitor\<close> to
  the checkpointer; the framework's default for it is \<^verbatim>\<open>'val_loss'\<close>.
\<close>

datatype callback =
    ModelCheckpoint string string int bool
  | EarlyStopping string int int

definition ModelCheckpoint_default_monitor :: string where
  "ModelCheckpoint_default_monitor = ''val_loss''"

text \<open>\<^verbatim>\<open>train\<close> does one thing: it calls \<^verbatim>\<open>model.fit_generator\<close>. The call, with
  every argument the script passes:\<close>

record 'v fit_generator_call =
  fit_model :: model
  fit_generator :: "'v flow_call"
  fit_samples_per_epoch :: int
  fit_nb_epoch :: int
  fit_verbose :: int
  fit_callbacks :: "callback list"
  fit_validation_data :: "'v flow_call"
  fit_nb_val_samples :: int
  fit_class_weight :: "unit option"
  fit_max_q_size :: int
  fit_nb_worker :: int
  fit_pickle_safe :: bool
  fit_initial_epoch :: int

definition train ::
  "model \<Rightarrow> 'v flow_call \<Rightarrow> 'v flow_call \<Rightarrow> string \<Rightarrow> int \<times> int \<times> int \<times> int \<Rightarrow>
     'v fit_generator_call" where
  "train model train_generator val_generator weights_filepath config =
     (case config of (batch_size, nb_epoch, samples_per_epoch, nb_val_samples) \<Rightarrow>
        let checkpointer =
              ModelCheckpoint weights_filepath ModelCheckpoint_default_monitor 2 True;
            early_stopping = EarlyStopping ''val_loss'' 10 2
        in \<lparr>fit_model = model, fit_generator = train_generator,
            fit_samples_per_epoch = samples_per_epoch, fit_nb_epoch = nb_epoch,
            fit_verbose = 2, fit_callbacks = [checkpointer, early_stopping],
            fit_validation_data = val_generator, fit_nb_val_samples = nb_val_samples,
            fit_class_weight = None, fit_max_q_size = 20, fit_nb_worker = 4,
            fit_pickle_safe = False, fit_initial_epoch = 0\<rparr>)"

subsection \<open>The entry point\<close>

text \<open>
  A run of the main block is the list of the effects it attempts, in order, and either
  the exception that ends it or its result. An effect that raises is the last of the
  list. Printing is left out; the four directory listings the prints make are kept,
  since they can raise.
\<close>

datatype event =
    Open string
  | JsonLoad
  | Makedirs string
  | CountFiles string
  | CreateDataGenerators
  | DefineModel
  | Train

type_synonym 'a io = "event list \<times> (error + 'a)"

definition io_bind :: "'a io \<Rightarrow> ('a \<Rightarrow> 'b io) \<Rightarrow> 'b io" where
  "io_bind m f =
     (case m of
        (t, Inl e) \<Rightarrow> (t, Inl e)
      | (t, Inr x) \<Rightarrow> (case f x of (t', r) \<Rightarrow> (t @ t', r)))"

definition io_do :: "event \<Rightarrow> error + 'a \<Rightarrow> 'a io" where
  "io_do ev r = ([ev], r)"

definition io_pure :: "error + 'a \<Rightarrow> 'a io" where
  "io_pure r = ([], r)"

text \<open>
  The names the module binds before the main block runs: lines 1 to 11 and the five
  function definitions. Evaluating any other name that is not a builtin raises
  \<^verbatim>\<open>NameError\<close>.
\<close>

definition module_globals :: "string list" where
  "module_globals =
     [''os'', ''argparse'', ''np'', ''sklearn_shuffle'', ''tf'', ''Model'',
      ''Flatten'', ''Dense'', ''Input'', ''merge'',
      ''Convolution3D'', ''MaxPooling3D'', ''BatchNormalization'', ''Activation'',
      ''AveragePooling3D'', ''ModelCheckpoint'', ''EarlyStopping'',
      ''ImageDataGenerator'',
      ''get_data_files'', ''create_data_generators'', ''res_block'', ''define_model'',
      ''train'']"

definition lookup_name :: "string list \<Rightarrow> string \<Rightarrow> error + unit" where
  "lookup_name globals name =
     (if name \<in> set globals then Inr () else Inl (NameError name))"

definition open_read :: "'v world \<Rightarrow> string \<Rightarrow> error + string" where
  "open_read w path =
     (case read_text w path of
        None \<Rightarrow> Inl (FileNotFoundError path)
      | Some text \<Rightarrow> Inr text)"

text \<open>\<^verbatim>\<open>posixpath.dirname\<close>.\<close>

definition os_path_dirname :: "string \<Rightarrow> string" where
  "os_path_dirname p =
     (let head = rev (dropWhile (\<lambda>c. c \<noteq> CHR ''/'') (rev p))
      in if head \<noteq> [] \<and> head \<noteq> replicate (length head) (CHR ''/'')
         then rev (dropWhile (\<lambda>c. c = CHR ''/'') (rev head))
         else head)"

text \<open>Lines 144 to 148, from the two numbers of files counted.\<close>

definition training_config :: "nat \<Rightarrow> nat \<Rightarrow> int \<times> int \<times> int \<times> int" where
  "training_config n_train n_val =
     (let batch_size = 16;
          nb_epoch = 1000;
          samples_per_epoch = batch_size * (int n_train div batch_size);
          nb_val_samples = batch_size * (int n_val div batch_size)
      in (batch_size, nb_epoch, samples_per_epoch, nb_val_samples))"

text \<open>
  The paths of the main block (lines 128 to 140). The script's file is
  \<^verbatim>\<open>sd01a.py\<close>, so the weights file is \<^verbatim>\<open>sd01a.hdf5\<close>.
\<close>

definition SETTINGS_FILE_PATH :: string where
  "SETTINGS_FILE_PATH = ''../../SETTINGS.json''"

definition BASEPATH :: "'v world \<Rightarrow> string" where
  "BASEPATH w = os_path_dirname (abspath w SETTINGS_FILE_PATH)"

definition main_train_dir :: "'v world \<Rightarrow> string" where
  "main_train_dir w =
     os_path_join (BASEPATH w) ''data_train/stage1/sex_det/volumes_1/train''"

definition main_val_dir :: "'v world \<Rightarrow> string" where
  "main_val_dir w =
     os_path_join (BASEPATH w) ''data_train/stage1/sex_det/volumes_1/val''"

definition main_weights_filepath :: "'v world \<Rightarrow> string" where
  "main_weights_filepath w =
     os_path_join (BASEPATH w) ''weights/stage1/sex_det/sd01a.hdf5''"

text \<open>
  The main block, run with the module's names \<open>globals\<close>: open the settings file,
  evaluate \<^verbatim>\<open>json.load(f)\<close> (the name \<^verbatim>\<open>json\<close> first, then the call), make the
  weights directory, count the files of the two splits, list the four label
  directories for the printout, build the generators and the model, and train.
\<close>

definition main_with ::
  "string list \<Rightarrow> 'v world \<Rightarrow> nat list \<Rightarrow> nat list \<Rightarrow> 'v fit_generator_call io" where
  "main_with globals w draw_train draw_val =
     io_bind (io_do (Open SETTINGS_FILE_PATH) (open_read w SETTINGS_FILE_PATH)) (\<lambda>f.
     io_bind (io_pure (lookup_name globals ''json'')) (\<lambda>_.
     io_bind (io_do JsonLoad (json_load w f)) (\<lambda>SETTINGS.
     let image_shape = [32, 32, 64, 1];
         train_dir = main_train_dir w;
         val_dir = main_val_dir w;
         weights_filepath = main_weights_filepath w
     in
     io_bind (io_do (Makedirs (os_path_join (BASEPATH w) ''weights/stage1/sex_det''))
                (os_makedirs w (os_path_join (BASEPATH w) ''weights/stage1/sex_det'')))
       (\<lambda>_.
     io_bind (io_do (CountFiles train_dir) (list_data_files w train_dir)) (\<lambda>train_files.
     io_bind (io_do (CountFiles val_dir) (list_data_files w val_dir)) (\<lambda>val_files.
     let config = training_config (length train_files) (length val_files);
         batch_size = fst config
     in
     io_bind (io_do (CountFiles (train_dir @ ''/0''))
                (list_data_files w (train_dir @ ''/0''))) (\<lambda>_.
     io_bind (io_do (CountFiles (train_dir @ ''/1''))
                (list_data_files w (train_dir @ ''/1''))) (\<lambda>_.
     io_bind (io_do (CountFiles (val_dir @ ''/0''))
                (list_data_files w (val_dir @ ''/0''))) (\<lambda>_.
     io_bind (io_do (CountFiles (val_dir @ ''/1''))
                (list_data_files w (val_dir @ ''/1''))) (\<lambda>_.
     io_bind (io_do CreateDataGenerators
                (create_data_generators w draw_train draw_val train_dir val_dir
                   image_shape batch_size)) (\<lambda>(train_generator, val_generator).
     io_bind (io_do DefineModel (Inr (define_model image_shape))) (\<lambda>model.
     io_do Train
       (Inr (train model train_generator val_generator weights_filepath config))
     ))))))))))))"

definition main :: "'v world \<Rightarrow> nat list \<Rightarrow> nat list \<Rightarrow> 'v fit_generator_call io" where
  "main w draw_train draw_val = main_with module_globals w draw_train draw_val"

subsection \<open>A small world to run the model on\<close>

text \<open>
  Volumes are strings here: loading a file gives its path back, so a row of \<open>X\<close>
  shows the file it came from. A split directory has one volume and a text file under
  \<^verbatim>\<open>0\<close> and two volumes under \<^verbatim>\<open>1\<close>, one of them in a subdirectory. The
  settings file is at \<^verbatim>\<open>/repo/SETTINGS.json\<close>, and the training and the
  validation directory of the main block each hold such a split.
\<close>

definition example_neg :: node where
  "example_neg = Dir [(''a.npy'', File), (''notes.txt'', File)]"

definition example_pos :: node where
  "example_pos = Dir [(''b.npy'', File), (''s'', Dir [(''c.npy'', File)])]"

definition example_split :: node where
  "example_split = Dir [(''0'', example_neg), (''1'', example_pos)]"

definition example_train_dir :: string where
  "example_train_dir = ''/repo/data_train/stage1/sex_det/volumes_1/train''"

definition example_val_dir :: string where
  "example_val_dir = ''/repo/data_train/stage1/sex_det/volumes_1/val''"

definition example_world :: "string world" where
  "example_world =
     \<lparr>tree_at = (\<lambda>p.
          if p = example_train_dir then Some example_split
          else if p = example_train_dir @ ''/0'' then Some example_neg
          else if p = example_train_dir @ ''/1'' then Some example_pos
          else if p = example_val_dir then Some example_split
          else if p = example_val_dir @ ''/0'' then Some example_neg
          else if p = example_val_dir @ ''/1'' then Some example_pos
          else None),
      np_load = (\<lambda>p. Inr p),
      np_zeros = (\<lambda>s. []),
      np_assign = (\<lambda>s v. Inr v),
      read_text = (\<lambda>p. if p = ''../../SETTINGS.json'' then Some ''{}'' else None),
      json_load = (\<lambda>t. Inr []),
      abspath = (\<lambda>p. if p = ''../../SETTINGS.json'' then ''/repo/SETTINGS.json'' else p),
      os_makedirs = (\<lambda>p. Inr ())\<rparr>"

text \<open>
  Parameters to run a graph with: every kernel gives one feature, which is
  not-a-number when a number it is given is, as arithmetic on not-a-number makes it,
  and 0 otherwise; the output unit has the weight 1 and the bias 0.
\<close>

definition example_params :: params where
  "example_params =
     \<lparr>layer_fn = (\<lambda>node ins. if NaN \<in> set (concat ins) then [NaN] else [Finite 0]),
      dense_W = (\<lambda>node j. [Finite 1]),
      dense_b = (\<lambda>node j. Finite 0)\<rparr>"

section \<open>Properties\<close>

subsection \<open>File discovery\<close>

lemma entry_below_File [simp]: "\<not> entry_below r File p x"
  by (auto elim: entry_below.cases)

lemma entry_below_Other [simp]: "\<not> entry_below r Other p x"
  by (auto elim: entry_below.cases)

lemma entry_below_Nil [simp]: "\<not> entry_below r (Dir []) p x"
  by (auto elim: entry_below.cases)

lemma entry_below_Dir:
  "entry_below r (Dir items) p x \<longleftrightarrow>
     (\<exists>name item. (name, item) \<in> set items \<and>
        (p = os_path_join r name \<and> x = item \<or>
         is_dir item \<and> entry_below (os_path_join r name) item p x))"
proof
  assume "entry_below r (Dir items) p x"
  then show "\<exists>name item. (name, item) \<in> set items \<and>
        (p = os_path_join r name \<and> x = item \<or>
         is_dir item \<and> entry_below (os_path_join r name) item p x)"
    by (cases rule: entry_below.cases) fastforce+
next
  assume "\<exists>name item. (name, item) \<in> set items \<and>
        (p = os_path_join r name \<and> x = item \<or>
         is_dir item \<and> entry_below (os_path_join r name) item p x)"
  then obtain name item where m: "(name, item) \<in> set items"
    and d: "p = os_path_join r name \<and> x = item \<or>
         is_dir item \<and> entry_below (os_path_join r name) item p x" by blast
  from d show "entry_below r (Dir items) p x"
  proof
    assume "p = os_path_join r name \<and> x = item"
    with m show ?thesis by (auto intro: entry_below.here)
  next
    assume b: "is_dir item \<and> entry_below (os_path_join r name) item p x"
    then obtain sub where "item = Dir sub" by (cases item) auto
    with m b show ?thesis by (auto intro: entry_below.deeper)
  qed
qed

lemma entry_below_Cons:
  "entry_below r (Dir ((name, item) # rest)) p x \<longleftrightarrow>
     (p = os_path_join r name \<and> x = item) \<or>
     (is_dir item \<and> entry_below (os_path_join r name) item p x) \<or>
     entry_below r (Dir rest) p x"
  unfolding entry_below_Dir [of r "(name, item) # rest"] entry_below_Dir [of r rest]
  by auto

text \<open>Below a directory the walk never raises: it only descends into directories.\<close>

lemma walk_total:
  "is_dir n \<Longrightarrow> \<exists>ps. get_data_files root_dir n = Inr ps"
  "\<exists>ps. scan_items root_dir items = Inr ps"
proof (induction root_dir n and root_dir items rule: get_data_files_scan_items.induct)
  case (5 root_dir name item rest)
  show ?case
  proof (cases "is_file item \<and> endswith (os_path_join root_dir name) ''.npy''")
    case True
    with "5.IH"(1)[OF refl True] show ?thesis by (auto simp: Let_def)
  next
    case False
    show ?thesis
    proof (cases "is_dir item")
      case True
      from "5.IH"(2)[OF refl False True True] obtain sub
        where s: "get_data_files (os_path_join root_dir name) item = Inr sub" by blast
      from "5.IH"(3)[OF refl False True s] obtain qs
        where "scan_items root_dir rest = Inr qs" by blast
      with s False True show ?thesis by (auto simp: Let_def)
    next
      case nd: False
      with "5.IH"(4)[OF refl False nd] False show ?thesis by (auto simp: Let_def)
    qed
  qed
qed simp_all

text \<open>What the walk yields, entry by entry.\<close>

lemma walk_sound_complete:
  "get_data_files root_dir n = Inr ps \<Longrightarrow>
     p \<in> set ps \<longleftrightarrow> entry_below root_dir n p File \<and> endswith p ''.npy''"
  "scan_items root_dir items = Inr ps \<Longrightarrow>
     p \<in> set ps \<longleftrightarrow> entry_below root_dir (Dir items) p File \<and> endswith p ''.npy''"
proof (induction root_dir n and root_dir items arbitrary: ps and ps
    rule: get_data_files_scan_items.induct)
  case (5 root_dir name item rest)
  show ?case
  proof (cases "is_file item \<and> endswith (os_path_join root_dir name) ''.npy''")
    case True
    then have it: "item = File" by (cases item) auto
    from True "5.prems" obtain qs where qs: "scan_items root_dir rest = Inr qs"
      "ps = os_path_join root_dir name # qs"
      by (auto simp: Let_def split: sum.splits)
    from "5.IH"(1)[OF refl True qs(1)] True it qs(2) show ?thesis
      by (auto simp: entry_below_Cons)
  next
    case False
    show ?thesis
    proof (cases "is_dir item")
      case True
      with False "5.prems" obtain sub qs
        where q: "get_data_files (os_path_join root_dir name) item = Inr sub"
          "scan_items root_dir rest = Inr qs" "ps = sub @ qs"
        by (auto simp: Let_def split: sum.splits)
      from True have nf: "item \<noteq> File" by auto
      from "5.IH"(2)[OF refl False True q(1)] "5.IH"(3)[OF refl False True q(1) q(2)]
        q(3) True nf
      show ?thesis by (auto simp: entry_below_Cons)
    next
      case nd: False
      with False "5.prems" have q: "scan_items root_dir rest = Inr ps"
        by (auto simp: Let_def)
      from "5.IH"(4)[OF refl False nd q] False nd show ?thesis
        by (cases item) (auto simp: entry_below_Cons)
    qed
  qed
qed simp_all

text \<open>
  In a tree with distinct names a path names one entry: the first component of the
  path below the root decides the entry of the directory, and so on downwards.
\<close>

lemma wf_items_mem:
  "wf_items items \<Longrightarrow> (name, item) \<in> set items \<Longrightarrow>
     name \<noteq> [] \<and> CHR ''/'' \<notin> set name \<and> wf_tree item"
  by (induction items) auto

lemma join_name:
  "name \<noteq> [] \<Longrightarrow> CHR ''/'' \<notin> set name \<Longrightarrow> os_path_join r name = dir_prefix r @ name"
  by (cases name) (auto simp: os_path_join_def dir_prefix_def)

lemma prefix_join_name:
  assumes "name \<noteq> []" "CHR ''/'' \<notin> set name"
  shows "dir_prefix (os_path_join r name) = dir_prefix r @ name @ ''/''"
proof -
  have "last (dir_prefix r @ name) = last name" using assms(1) by simp
  moreover have "last name \<in> set name" using assms(1) by simp
  ultimately have "last (dir_prefix r @ name) \<noteq> CHR ''/''" using assms(2) by metis
  then show ?thesis
    using assms by (simp add: join_name dir_prefix_def [of "dir_prefix r @ name"])
qed

lemma entry_below_path:
  "entry_below r n p x \<Longrightarrow> wf_tree n \<Longrightarrow> \<exists>q. p = dir_prefix r @ q \<and> q \<noteq> []"
proof (induction rule: entry_below.induct)
  case (here name item items r)
  then have "name \<noteq> [] \<and> CHR ''/'' \<notin> set name" using wf_items_mem by auto
  then show ?case by (auto simp: join_name)
next
  case (deeper name sub items r p item)
  then have nm: "name \<noteq> []" "CHR ''/'' \<notin> set name" and "wf_tree (Dir sub)"
    using wf_items_mem [of items name "Dir sub"] by auto
  with deeper.IH obtain q where "p = dir_prefix (os_path_join r name) @ q" "q \<noteq> []" by auto
  then show ?case using nm by (auto simp: prefix_join_name)
qed

lemma takeWhile_until:
  "c \<notin> set a \<Longrightarrow> takeWhile (\<lambda>x. x \<noteq> c) (a @ c # l) = a"
  "c \<notin> set a \<Longrightarrow> takeWhile (\<lambda>x. x \<noteq> c) a = a"
  by (induction a) auto

lemma first_component:
  assumes "a @ s = b @ t" "CHR ''/'' \<notin> set a" "CHR ''/'' \<notin> set b"
    "s = [] \<or> hd s = CHR ''/''" "t = [] \<or> hd t = CHR ''/''"
  shows "a = b \<and> s = t"
proof -
  have "takeWhile (\<lambda>c. c \<noteq> CHR ''/'') (a @ s) = a"
    using assms(2,4) by (cases s) (auto simp: takeWhile_until)
  moreover have "takeWhile (\<lambda>c. c \<noteq> CHR ''/'') (b @ t) = b"
    using assms(3,5) by (cases t) (auto simp: takeWhile_until)
  ultimately have "a = b" using assms(1) by simp
  with assms(1) show ?thesis by simp
qed

lemma entry_below_step:
  assumes wf: "wf_items items" and m: "(name, item) \<in> set items"
    and e: "p = os_path_join r name \<and> x = item \<or>
         is_dir item \<and> entry_below (os_path_join r name) item p x"
  shows "\<exists>s. p = dir_prefix r @ name @ s \<and>
     (s = [] \<and> x = item \<or>
      s \<noteq> [] \<and> hd s = CHR ''/'' \<and> entry_below (os_path_join r name) item p x)"
proof -
  from wf_items_mem [OF wf m] have nm: "name \<noteq> []" "CHR ''/'' \<notin> set name"
    and wi: "wf_tree item" by auto
  from e show ?thesis
  proof
    assume "p = os_path_join r name \<and> x = item"
    then show ?thesis using nm by (auto simp: join_name)
  next
    assume d: "is_dir item \<and> entry_below (os_path_join r name) item p x"
    with entry_below_path [of "os_path_join r name" item p x] wi
    obtain q where "p = dir_prefix (os_path_join r name) @ q" "q \<noteq> []" by auto
    then have "p = dir_prefix r @ name @ (''/'' @ q)" using nm by (simp add: prefix_join_name)
    with d show ?thesis by (intro exI [of _ "''/'' @ q"]) simp
  qed
qed

lemma map_of_unique:
  "distinct (map fst items) \<Longrightarrow> (name, a) \<in> set items \<Longrightarrow> (name, b) \<in> set items \<Longrightarrow> a = b"
  by (metis map_of_is_SomeI option.inject)

lemma entry_below_unique:
  "wf_tree n \<Longrightarrow> entry_below r n p x \<Longrightarrow> entry_below r n p y \<Longrightarrow> x = y"
proof (induction n arbitrary: r p x y)
  case (Dir items)
  from Dir.prems(1) have wf: "wf_items items" and di: "distinct (map fst items)" by auto
  from Dir.prems(2) obtain n1 i1 where m1: "(n1, i1) \<in> set items"
    and e1: "p = os_path_join r n1 \<and> x = i1 \<or>
         is_dir i1 \<and> entry_below (os_path_join r n1) i1 p x"
    unfolding entry_below_Dir [of r items] by blast
  from Dir.prems(3) obtain n2 i2 where m2: "(n2, i2) \<in> set items"
    and e2: "p = os_path_join r n2 \<and> y = i2 \<or>
         is_dir i2 \<and> entry_below (os_path_join r n2) i2 p y"
    unfolding entry_below_Dir [of r items] by blast
  from entry_below_step [OF wf m1 e1] obtain s1 where
    p1: "p = dir_prefix r @ n1 @ s1" and
    c1: "s1 = [] \<and> x = i1 \<or>
      s1 \<noteq> [] \<and> hd s1 = CHR ''/'' \<and> entry_below (os_path_join r n1) i1 p x" by blast
  from entry_below_step [OF wf m2 e2] obtain s2 where
    p2: "p = dir_prefix r @ n2 @ s2" and
    c2: "s2 = [] \<and> y = i2 \<or>
      s2 \<noteq> [] \<and> hd s2 = CHR ''/'' \<and> entry_below (os_path_join r n2) i2 p y" by blast
  from wf_items_mem [OF wf m1] wf_items_mem [OF wf m2]
  have ns: "CHR ''/'' \<notin> set n1" "CHR ''/'' \<notin> set n2" and wi: "wf_tree i1" by auto
  from p1 p2 have "n1 @ s1 = n2 @ s2" by simp
  from first_component [OF this ns] c1 c2 have n: "n1 = n2" and s: "s1 = s2" by auto
  from map_of_unique [OF di m1] m2 n have i: "i1 = i2" by simp
  from c1 show ?case
  proof
    assume "s1 = [] \<and> x = i1"
    with c2 s i show ?thesis by auto
  next
    assume a: "s1 \<noteq> [] \<and> hd s1 = CHR ''/'' \<and> entry_below (os_path_join r n1) i1 p x"
    with c2 s have b: "entry_below (os_path_join r n2) i2 p y" by auto
    have "i1 \<in> Basic_BNFs.snds (n1, i1)" by simp
    from Dir.IH [OF m1 this wi] a b n i show ?thesis by blast
  qed
qed auto

text \<open>
  Claim C6. For every directory, \<open>get_data_files\<close> returns, and yields exactly the
  paths that end in \<^verbatim>\<open>.npy\<close> of the file entries at any depth below it: each
  yielded path is such a path, and each such path is yielded. So a file whose path
  does not end in \<^verbatim>\<open>.npy\<close> is not yielded; and in a tree with distinct names, the
  entry at a yielded path is a file, never a directory or anything else.
\<close>

theorem get_data_files_yields_npy_files:
  "\<exists>ps. get_data_files root_dir (Dir items) = Inr ps \<and>
     (\<forall>p. p \<in> set ps \<longleftrightarrow>
        (entry_below root_dir (Dir items) p File \<and> endswith p ''.npy'')) \<and>
     (wf_tree (Dir items) \<longrightarrow>
        (\<forall>p x. p \<in> set ps \<and> entry_below root_dir (Dir items) p x \<longrightarrow> x = File))"
proof -
  obtain ps where ps: "get_data_files root_dir (Dir items) = Inr ps"
    using walk_total(1) [of "Dir items" root_dir] by auto
  have iff: "\<forall>p. p \<in> set ps \<longleftrightarrow>
      (entry_below root_dir (Dir items) p File \<and> endswith p ''.npy'')"
    using walk_sound_complete(1) [OF ps] by blast
  have "x = File"
    if "wf_tree (Dir items)" "p \<in> set ps" "entry_below root_dir (Dir items) p x" for p x
  proof -
    from iff that(2) have "entry_below root_dir (Dir items) p File" by blast
    from entry_below_unique [OF that(1) that(3) this] show ?thesis .
  qed
  with ps iff show ?thesis by blast
qed

theorem get_data_files_yields_npy_files_witness:
  "wf_tree (Dir [(''a.npy'', File), (''b.txt'', File),
      (''s'', Dir [(''c.npy'', File), (''e.npy'', Dir [])])]) \<and>
   entry_below ''d'' (Dir [(''a.npy'', File), (''b.txt'', File),
      (''s'', Dir [(''c.npy'', File), (''e.npy'', Dir [])])]) ''d/s/c.npy'' File \<and>
   \<not> entry_below ''d'' (Dir [(''a.npy'', File), (''b.txt'', File),
      (''s'', Dir [(''c.npy'', File), (''e.npy'', Dir [])])]) ''d/s/e.npy'' File \<and>
   \<not> entry_below ''d'' (Dir [(''a.npy'', File), (''b.txt'', File),
      (''s'', Dir [(''c.npy'', File), (''e.npy'', Dir [])])]) ''d/a.npy'' (Dir [])"
proof -
  let ?items = "[(''a.npy'', File), (''b.txt'', File),
      (''s'', Dir [(''c.npy'', File), (''e.npy'', Dir [])])]"
  have wf: "wf_tree (Dir ?items)" by simp
  from get_data_files_yields_npy_files [of "''d''" ?items]
  obtain ps where run: "get_data_files ''d'' (Dir ?items) = Inr ps"
    and iff: "\<And>p. p \<in> set ps \<longleftrightarrow>
        (entry_below ''d'' (Dir ?items) p File \<and> endswith p ''.npy'')"
    and only: "wf_tree (Dir ?items) \<longrightarrow>
        (\<forall>p x. p \<in> set ps \<and> entry_below ''d'' (Dir ?items) p x \<longrightarrow> x = File)"
    by blast
  from run have ps: "ps = [''d/a.npy'', ''d/s/c.npy'']"
    by (simp add: os_path_join_def endswith_def)
  from only wf have "\<not> entry_below ''d'' (Dir ?items) ''d/a.npy'' (Dir [])"
    unfolding ps by auto
  with wf iff [of "''d/s/c.npy''"] iff [of "''d/s/e.npy''"] show ?thesis
    unfolding ps by (simp add: endswith_def)
qed

text \<open>
  In a tree with distinct names the walk yields no path twice, so the length of the
  listing is the number of the file entries whose path ends in \<^verbatim>\<open>.npy\<close>.
\<close>

lemma entry_below_component:
  assumes "wf_items items" and "entry_below r (Dir items) p x"
  shows "\<exists>name item s. (name, item) \<in> set items \<and> p = dir_prefix r @ name @ s \<and>
     (s = [] \<or> hd s = CHR ''/'')"
proof -
  from assms(2) obtain name item where m: "(name, item) \<in> set items"
    and e: "p = os_path_join r name \<and> x = item \<or>
         is_dir item \<and> entry_below (os_path_join r name) item p x"
    unfolding entry_below_Dir [of r items] by blast
  from entry_below_step [OF assms(1) m e] m show ?thesis by blast
qed

lemma not_in_rest:
  assumes wf: "wf_items rest" and nm: "CHR ''/'' \<notin> set name" "name \<notin> fst ` set rest"
    and s: "s = [] \<or> hd s = CHR ''/''"
  shows "\<not> entry_below r (Dir rest) (dir_prefix r @ name @ s) x"
proof
  assume "entry_below r (Dir rest) (dir_prefix r @ name @ s) x"
  from entry_below_component [OF wf this] obtain n2 i2 s2 where
    m: "(n2, i2) \<in> set rest" and p: "dir_prefix r @ name @ s = dir_prefix r @ n2 @ s2"
    and s2: "s2 = [] \<or> hd s2 = CHR ''/''" by blast
  from wf_items_mem [OF wf m] have "CHR ''/'' \<notin> set n2" by simp
  from p have "name @ s = n2 @ s2" by simp
  from first_component [OF this nm(1) \<open>CHR ''/'' \<notin> set n2\<close> s s2] have "name = n2" by simp
  with m nm(2) show False by force
qed

lemma walk_distinct:
  "wf_tree n \<Longrightarrow> get_data_files root_dir n = Inr ps \<Longrightarrow> distinct ps"
  "wf_items items \<Longrightarrow> distinct (map fst items) \<Longrightarrow> scan_items root_dir items = Inr ps \<Longrightarrow>
     distinct ps"
proof (induction root_dir n and root_dir items arbitrary: ps and ps
    rule: get_data_files_scan_items.induct)
  case (1 root_dir items)
  then show ?case by simp
next
  case (5 root_dir name item rest)
  let ?path = "os_path_join root_dir name"
  from "5.prems"(1) have nm: "name \<noteq> []" "CHR ''/'' \<notin> set name" and wi: "wf_tree item"
    and wr: "wf_items rest" by simp_all
  from "5.prems"(2) have nr: "name \<notin> fst ` set rest" and dr: "distinct (map fst rest)"
    by simp_all
  have path: "?path = dir_prefix root_dir @ name @ []" using nm by (simp add: join_name)
  show ?case
  proof (cases "is_file item \<and> endswith ?path ''.npy''")
    case True
    from True "5.prems"(3) obtain qs where qs: "scan_items root_dir rest = Inr qs"
      "ps = ?path # qs"
      by (auto simp: Let_def split: sum.splits)
    from "5.IH"(1) [OF refl True wr dr qs(1)] have d: "distinct qs" .
    have "?path \<notin> set qs"
    proof
      assume "?path \<in> set qs"
      with walk_sound_complete(2) [OF qs(1)]
      have "entry_below root_dir (Dir rest) ?path File" by blast
      with not_in_rest [OF wr nm(2) nr, of "[]" root_dir File] path show False by simp
    qed
    with d qs(2) show ?thesis by simp
  next
    case False
    show ?thesis
    proof (cases "is_dir item")
      case True
      with False "5.prems"(3) obtain sub qs
        where q: "get_data_files ?path item = Inr sub"
          "scan_items root_dir rest = Inr qs" "ps = sub @ qs"
        by (auto simp: Let_def split: sum.splits)
      from "5.IH"(2) [OF refl False True wi q(1)] have ds: "distinct sub" .
      from "5.IH"(3) [OF refl False True q(1) wr dr q(2)] have dq: "distinct qs" .
      have "p \<notin> set qs" if "p \<in> set sub" for p
      proof
        assume pq: "p \<in> set qs"
        from that walk_sound_complete(1) [OF q(1)]
        have "entry_below ?path item p File" by blast
        from entry_below_path [OF this wi] obtain q' where
          "p = dir_prefix ?path @ q'" "q' \<noteq> []" by blast
        then have p: "p = dir_prefix root_dir @ name @ (''/'' @ q')"
          using nm by (simp add: prefix_join_name)
        from pq walk_sound_complete(2) [OF q(2)]
        have "entry_below root_dir (Dir rest) p File" by blast
        with not_in_rest [OF wr nm(2) nr, of "''/'' @ q'" root_dir File] p
        show False by simp
      qed
      with ds dq q(3) show ?thesis by auto
    next
      case nd: False
      with False "5.prems"(3) have q: "scan_items root_dir rest = Inr ps"
        by (auto simp: Let_def)
      from "5.IH"(4) [OF refl False nd wr dr q] show ?thesis .
    qed
  qed
qed simp_all

lemma listing_counts_npy_files:
  assumes "wf_tree (Dir items)" and "get_data_files root_dir (Dir items) = Inr ps"
  shows "length ps =
     card {p. entry_below root_dir (Dir items) p File \<and> endswith p ''.npy''}"
proof -
  have "set ps = {p. entry_below root_dir (Dir items) p File \<and> endswith p ''.npy''}"
    using walk_sound_complete(1) [OF assms(2)] by blast
  moreover have "distinct ps" by (rule walk_distinct(1) [OF assms])
  ultimately show ?thesis by (metis distinct_card)
qed

subsection \<open>The shuffle\<close>

lemma perm_facts:
  assumes "mset indices = mset [0..<n]"
  shows "length indices = n" "set indices = {..<n}" "distinct indices"
proof -
  have "length indices = length [0..<n]" by (rule mset_eq_length [OF assms])
  then show "length indices = n" by simp
  have "set indices = set [0..<n]" by (rule mset_eq_setD [OF assms])
  then show "set indices = {..<n}" by (simp add: lessThan_atLeast0)
  have "distinct indices = distinct [0..<n]" by (rule mset_eq_imp_distinct_iff [OF assms])
  then show "distinct indices" by simp
qed

lemma mset_map_indices:
  assumes "mset indices = mset [0..<length zs]"
  shows "mset (map (\<lambda>i. zs ! i) indices) = mset zs"
proof -
  have "mset (map (\<lambda>i. zs ! i) indices) = image_mset (\<lambda>i. zs ! i) (mset indices)" by simp
  also have "\<dots> = image_mset (\<lambda>i. zs ! i) (mset [0..<length zs])" by (simp only: assms)
  also have "\<dots> = mset (map (\<lambda>i. zs ! i) [0..<length zs])" by simp
  also have "\<dots> = mset zs" by (simp add: map_nth)
  finally show ?thesis .
qed

lemma zip_map_indices:
  "length X = length y \<Longrightarrow> \<forall>i \<in> set indices. i < length X \<Longrightarrow>
     zip (map (\<lambda>i. X ! i) indices) (map (\<lambda>i. y ! i) indices) =
     map (\<lambda>i. zip X y ! i) indices"
  by (induction indices) auto

lemma sklearn_shuffle_Inr:
  "sklearn_shuffle indices X y = Inr (X', y') \<longleftrightarrow>
     length X = length y \<and> (\<forall>i \<in> set indices. i < length X) \<and>
     X' = map (\<lambda>i. X ! i) indices \<and> y' = map (\<lambda>i. y ! i) indices"
proof -
  have "(\<exists>i \<in> set indices. length X \<le> i) \<longleftrightarrow> \<not> (\<forall>i \<in> set indices. i < length X)"
    by (auto simp: not_less)
  then show ?thesis
    unfolding sklearn_shuffle_def by (cases "length X = length y") auto
qed

text \<open>
  Claim C2. For two arrays of equal length and any order of the row indices that the
  library can draw (a permutation of \<open>0, ..., n - 1\<close>), the shuffle returns arrays
  \<open>X'\<close> and \<open>y'\<close> of the same length with \<open>X'[i] = X[indices[i]]\<close> and
  \<open>y'[i] = y[indices[i]]\<close> for every \<open>i\<close>, where \<open>i \<mapsto> indices[i]\<close> is a bijection
  on the indices; so the multiset of (volume, label) pairs is unchanged, and with
  it the multiset of the labels, that is the count of each label.
\<close>

theorem shuffle_preserves_pairing:
  assumes "length X = length y" and "mset indices = mset [0..<length X]"
  shows "\<exists>X' y'. sklearn_shuffle indices X y = Inr (X', y') \<and>
      length X' = length X \<and> length y' = length y \<and>
      bij_betw (\<lambda>i. indices ! i) {..<length X} {..<length X} \<and>
      (\<forall>i < length X. X' ! i = X ! (indices ! i) \<and> y' ! i = y ! (indices ! i)) \<and>
      mset (zip X' y') = mset (zip X y) \<and>
      mset y' = mset y"
proof -
  note pf = perm_facts [OF assms(2)]
  let ?X' = "map (\<lambda>i. X ! i) indices" and ?y' = "map (\<lambda>i. y ! i) indices"
  have inr: "\<forall>i \<in> set indices. i < length X" using pf(2) by auto
  then have run: "sklearn_shuffle indices X y = Inr (?X', ?y')"
    using assms(1) by (simp add: sklearn_shuffle_Inr)
  have bij: "bij_betw (\<lambda>i. indices ! i) {..<length X} {..<length X}"
  proof (rule bij_betw_nth)
    show "distinct indices" by (rule pf(3))
    show "{..<length X} = {..<length indices}" using pf(1) by simp
    show "{..<length X} = set indices" using pf(2) by simp
  qed
  have nth: "\<forall>i < length X. ?X' ! i = X ! (indices ! i) \<and> ?y' ! i = y ! (indices ! i)"
    using pf(1) by simp
  have "zip ?X' ?y' = map (\<lambda>i. zip X y ! i) indices"
    using zip_map_indices [OF assms(1) inr] .
  moreover have "length (zip X y) = length X" using assms(1) by simp
  ultimately have pairs: "mset (zip ?X' ?y') = mset (zip X y)"
    using mset_map_indices [of indices "zip X y"] assms(2) by (simp only:)
  have labels: "mset ?y' = mset y"
    using mset_map_indices [of indices y] assms by (simp only:)
  show ?thesis
  proof (intro exI conjI)
    show "sklearn_shuffle indices X y = Inr (?X', ?y')" by (rule run)
    show "length ?X' = length X" using pf(1) by simp
    show "length ?y' = length y" using pf(1) assms(1) by simp
    show "bij_betw (\<lambda>i. indices ! i) {..<length X} {..<length X}" by (rule bij)
    show "\<forall>i < length X. ?X' ! i = X ! (indices ! i) \<and> ?y' ! i = y ! (indices ! i)"
      by (rule nth)
    show "mset (zip ?X' ?y') = mset (zip X y)" by (rule pairs)
    show "mset ?y' = mset y" by (rule labels)
  qed
qed

lemma example_permutation: "mset [2, 0, Suc 0] = mset [0..<length [''a'', ''b'', ''c'']]"
proof -
  have "[0..<length [''a'', ''b'', ''c'']] = [0, Suc 0, 2]"
    by (simp add: upt_conv_Cons numeral_2_eq_2)
  then show ?thesis by (simp add: add_mset_commute)
qed

theorem shuffle_preserves_pairing_witness:
  "sklearn_shuffle [2, 0, Suc 0] [''a'', ''b'', ''c''] [False, True, True] =
     Inr ([''c'', ''a'', ''b''], [True, False, True]) \<and>
   mset (zip [''c'', ''a'', ''b''] [True, False, True]) =
     mset (zip [''a'', ''b'', ''c''] [False, True, True])"
proof -
  have len: "length [''a'', ''b'', ''c''] = length [False, True, True]" by simp
  have run: "sklearn_shuffle [2, 0, Suc 0] [''a'', ''b'', ''c''] [False, True, True] =
     Inr ([''c'', ''a'', ''b''], [True, False, True])"
    by (simp add: sklearn_shuffle_def)
  from shuffle_preserves_pairing [OF len example_permutation]
  obtain X' y' where
    r: "sklearn_shuffle [2, 0, Suc 0] [''a'', ''b'', ''c''] [False, True, True] = Inr (X', y')"
    and m: "mset (zip X' y') = mset (zip [''a'', ''b'', ''c''] [False, True, True])"
    by blast
  from r run have "X' = [''c'', ''a'', ''b'']" "y' = [True, False, True]" by simp_all
  with m run show ?thesis by simp
qed

subsection \<open>The small world\<close>

lemma example_paths:
  "BASEPATH example_world = ''/repo''"
  "main_train_dir example_world = example_train_dir"
  "main_val_dir example_world = example_val_dir"
proof -
  show b: "BASEPATH example_world = ''/repo''"
    by (simp add: BASEPATH_def SETTINGS_FILE_PATH_def example_world_def os_path_dirname_def)
  show "main_train_dir example_world = example_train_dir"
    by (simp add: main_train_dir_def b os_path_join_def example_train_dir_def)
  show "main_val_dir example_world = example_val_dir"
    by (simp add: main_val_dir_def b os_path_join_def example_val_dir_def)
qed

lemma example_tree_at:
  "tree_at example_world example_train_dir = Some example_split"
  "tree_at example_world (example_train_dir @ ''/0'') = Some example_neg"
  "tree_at example_world (example_train_dir @ ''/1'') = Some example_pos"
  "tree_at example_world example_val_dir = Some example_split"
  "tree_at example_world (example_val_dir @ ''/0'') = Some example_neg"
  "tree_at example_world (example_val_dir @ ''/1'') = Some example_pos"
  by (simp_all add: example_world_def example_train_dir_def example_val_dir_def)

lemma example_dir_ends:
  "example_train_dir \<noteq> []" "last example_train_dir \<noteq> CHR ''/''"
  "example_val_dir \<noteq> []" "last example_val_dir \<noteq> CHR ''/''"
  by (simp_all add: example_train_dir_def example_val_dir_def)

lemma example_counts:
  "\<exists>fs. list_data_files example_world example_train_dir = Inr fs \<and> length fs = 3"
  "\<exists>fs. list_data_files example_world example_val_dir = Inr fs \<and> length fs = 3"
  by (simp_all add: list_data_files_def example_tree_at example_split_def example_neg_def
      example_pos_def os_path_join_def endswith_def example_dir_ends)

lemma example_label_dirs:
  assumes "tree_at example_world (p @ ''/0'') = Some example_neg"
    and "tree_at example_world (p @ ''/1'') = Some example_pos"
  shows "list_data_files example_world (p @ ''/0'') = Inr [p @ ''/0/a.npy'']"
    and "list_data_files example_world (p @ ''/1'') = Inr [p @ ''/1/b.npy'', p @ ''/1/s/c.npy'']"
  using assms
  by (simp_all add: list_data_files_def example_neg_def example_pos_def
      os_path_join_def endswith_def)

lemma example_split_loads:
  assumes "tree_at example_world (p @ ''/0'') = Some example_neg"
    and "tree_at example_world (p @ ''/1'') = Some example_pos"
    and "p \<noteq> []" and "last p \<noteq> CHR ''/''"
  shows "load_split example_world p [32, 32, 64, 1] =
     Inr ([p @ ''/0/a.npy'', p @ ''/1/b.npy'', p @ ''/1/s/c.npy''], [False, True, True])"
proof -
  have j: "os_path_join p ''0'' = p @ ''/0''" "os_path_join p ''1'' = p @ ''/1''"
    using assms(3,4) by (simp_all add: os_path_join_def)
  have l: "np_load example_world = (\<lambda>p. Inr p)"
    "np_assign example_world = (\<lambda>s v. Inr v)" "np_zeros example_world = (\<lambda>s. [])"
    by (simp_all add: example_world_def)
  show ?thesis
    unfolding load_split_def j example_label_dirs [OF assms(1,2)]
    by (simp add: l astype_bool_def enumerate_eq_zip upt_conv_Cons)
qed

lemma example_generators:
  "create_data_generators example_world [2, 0, Suc 0] [0, Suc 0, 2]
     example_train_dir example_val_dir [32, 32, 64, 1] bs =
   Inr (flow (ImageDataGenerator
               [(''rotation_range'', Num 30),
                (''width_shift_range'', Num 0.125),
                (''height_shift_range'', Num 0.125),
                (''depth_shift_range'', Num 0.125),
                (''zoom_range'', Num 0.125),
                (''horizontal_flip'', Flag True),
                (''vertical_flip'', Flag False),
                (''depth_flip'', Flag False)])
          [example_train_dir @ ''/1/s/c.npy'', example_train_dir @ ''/0/a.npy'',
           example_train_dir @ ''/1/b.npy'']
          [True, False, True] bs,
        flow (ImageDataGenerator [])
          [example_val_dir @ ''/0/a.npy'', example_val_dir @ ''/1/b.npy'',
           example_val_dir @ ''/1/s/c.npy'']
          [False, True, True] bs)"
  unfolding create_data_generators_def Let_def
    example_split_loads [OF example_tree_at(2,3) example_dir_ends(1,2)]
    example_split_loads [OF example_tree_at(5,6) example_dir_ends(3,4)]
  by (simp add: sklearn_shuffle_def)

subsection \<open>Data assembly\<close>

text \<open>The loading loop fills row \<open>k + i\<close> from the \<open>i\<close>-th file and leaves the rows
  before \<open>k\<close> alone.\<close>

lemma load_volumes_rows:
  "load_volumes w sh X (enumerate k fs) = Inr X' \<Longrightarrow> k + length fs \<le> length X \<Longrightarrow>
     length X' = length X \<and>
     (\<forall>i < length fs. stored_row w sh (fs ! i) = Inr (X' ! (k + i))) \<and>
     (\<forall>j < k. X' ! j = X ! j)"
proof (induction fs arbitrary: k X)
  case Nil
  then show ?case by simp
next
  case (Cons f fs)
  from Cons.prems(1) obtain volume row where
    v: "np_load w f = Inr volume" and r: "np_assign w sh volume = Inr row"
    and rest: "load_volumes w sh (X[k := row]) (enumerate (Suc k) fs) = Inr X'"
    by (auto split: sum.splits)
  from Cons.prems(2) have len: "Suc k + length fs \<le> length (X[k := row])" by simp
  from Cons.IH [OF rest len] have
    l: "length X' = length X"
    and a: "\<And>i. i < length fs \<Longrightarrow> stored_row w sh (fs ! i) = Inr (X' ! (Suc k + i))"
    and b: "\<And>j. j < Suc k \<Longrightarrow> X' ! j = (X[k := row]) ! j"
    by auto
  from b [of k] Cons.prems(2) have xk: "X' ! k = row" by simp
  have "stored_row w sh ((f # fs) ! i) = Inr (X' ! (k + i))" if "i < length (f # fs)" for i
  proof (cases i)
    case 0
    with v r xk show ?thesis by (simp add: stored_row_def)
  next
    case (Suc i')
    with that a [of i'] show ?thesis by simp
  qed
  moreover have "X' ! j = X ! j" if "j < k" for j
    using b [of j] that by simp
  ultimately show ?case using l by blast
qed

text \<open>The loop returns when every file loads and fits.\<close>

lemma load_volumes_total:
  "(\<And>f. f \<in> set fs \<Longrightarrow> \<exists>r. stored_row w sh f = Inr r) \<Longrightarrow>
     \<exists>X'. load_volumes w sh X (enumerate k fs) = Inr X'"
proof (induction fs arbitrary: k X)
  case Nil
  then show ?case by simp
next
  case (Cons f fs)
  from Cons.prems [of f] obtain r where "stored_row w sh f = Inr r" by auto
  then obtain volume where "np_load w f = Inr volume" "np_assign w sh volume = Inr r"
    by (auto simp: stored_row_def split: sum.splits)
  moreover from Cons.IH [where k = "Suc k" and X = "X[k := r]"] Cons.prems
  obtain X' where "load_volumes w sh (X[k := r]) (enumerate (Suc k) fs) = Inr X'" by auto
  ultimately show ?case by simp
qed

lemma astype_bool_labels:
  "astype_bool (replicate n 0 @ replicate m 1) = replicate n False @ replicate m True"
  by (simp add: astype_bool_def)

lemma load_split_cases:
  assumes "load_split w dir image_shape = Inr (X, y)"
  obtains neg_files pos_files where
    "list_data_files w (os_path_join dir ''0'') = Inr neg_files"
    "list_data_files w (os_path_join dir ''1'') = Inr pos_files"
    "length X = length neg_files + length pos_files"
    "y = replicate (length neg_files) False @ replicate (length pos_files) True"
    "\<And>i. i < length neg_files + length pos_files \<Longrightarrow>
       stored_row w image_shape ((neg_files @ pos_files) ! i) = Inr (X ! i)"
proof -
  from assms obtain neg_files pos_files where
    n: "list_data_files w (os_path_join dir ''0'') = Inr neg_files" and
    p: "list_data_files w (os_path_join dir ''1'') = Inr pos_files" and
    l: "load_volumes w image_shape
          (replicate (length neg_files + length pos_files) (np_zeros w image_shape))
          (enumerate 0 (neg_files @ pos_files)) = Inr X" and
    y: "y = astype_bool (replicate (length neg_files) 0 @ replicate (length pos_files) 1)"
    by (auto simp: load_split_def Let_def split: sum.splits)
  from load_volumes_rows [OF l] have
    len: "length X = length neg_files + length pos_files" and
    rows: "\<And>i. i < length neg_files + length pos_files \<Longrightarrow>
        stored_row w image_shape ((neg_files @ pos_files) ! i) = Inr (X ! i)"
    by auto
  have y': "y = replicate (length neg_files) False @ replicate (length pos_files) True"
    using y by (simp add: astype_bool_labels)
  show thesis
  proof (rule that [OF n p len y'])
    fix i
    assume "i < length neg_files + length pos_files"
    then show "stored_row w image_shape ((neg_files @ pos_files) ! i) = Inr (X ! i)"
      by (rule rows)
  qed
qed

lemma load_split_ordered:
  assumes "load_split w dir image_shape = Inr (X, y)"
  shows "ordered_by_label w image_shape dir X y"
  using assms
proof (rule load_split_cases)
  fix neg_files pos_files
  assume n: "list_data_files w (os_path_join dir ''0'') = Inr neg_files"
    and p: "list_data_files w (os_path_join dir ''1'') = Inr pos_files"
    and len: "length X = length neg_files + length pos_files"
    and y: "y = replicate (length neg_files) False @ replicate (length pos_files) True"
    and rows: "\<And>i. i < length neg_files + length pos_files \<Longrightarrow>
        stored_row w image_shape ((neg_files @ pos_files) ! i) = Inr (X ! i)"
  have "map (stored_row w image_shape) (neg_files @ pos_files) = map Inr X"
  proof (rule nth_equalityI)
    show "length (map (stored_row w image_shape) (neg_files @ pos_files)) = length (map Inr X)"
      using len by simp
  next
    fix i
    assume "i < length (map (stored_row w image_shape) (neg_files @ pos_files))"
    then have i: "i < length neg_files + length pos_files" by simp
    with rows [OF i] len
    show "map (stored_row w image_shape) (neg_files @ pos_files) ! i = map Inr X ! i"
      by (simp del: map_append)
  qed
  with n p y show ?thesis by (simp add: ordered_by_label_def)
qed

lemma load_split_labelled:
  assumes "load_split w dir image_shape = Inr (X, y)" and "j < length X"
  shows "\<exists>files f. list_data_files w (os_path_join dir (if y ! j then ''1'' else ''0'')) = Inr files \<and>
     f \<in> set files \<and> stored_row w image_shape f = Inr (X ! j)"
  using assms(1)
proof (rule load_split_cases)
  fix neg_files pos_files
  assume n: "list_data_files w (os_path_join dir ''0'') = Inr neg_files"
    and p: "list_data_files w (os_path_join dir ''1'') = Inr pos_files"
    and len: "length X = length neg_files + length pos_files"
    and y: "y = replicate (length neg_files) False @ replicate (length pos_files) True"
    and rows: "\<And>i. i < length neg_files + length pos_files \<Longrightarrow>
        stored_row w image_shape ((neg_files @ pos_files) ! i) = Inr (X ! i)"
  show ?thesis
  proof (cases "j < length neg_files")
    case True
    then have "y ! j = False" by (simp add: y nth_append)
    moreover have "neg_files ! j \<in> set neg_files" using True by simp
    moreover have "stored_row w image_shape (neg_files ! j) = Inr (X ! j)"
      using rows [of j] True by (simp add: nth_append)
    ultimately show ?thesis using n by auto
  next
    case False
    with assms(2) len have k: "j - length neg_files < length pos_files" by simp
    from False k have "y ! j = True" by (simp add: y nth_append)
    moreover have "pos_files ! (j - length neg_files) \<in> set pos_files" using k by simp
    moreover have "stored_row w image_shape (pos_files ! (j - length neg_files)) = Inr (X ! j)"
      using rows [of j] False assms(2) len by (simp add: nth_append)
    ultimately show ?thesis using p by auto
  qed
qed

lemma shuffled_split_labelled:
  assumes "load_split w dir image_shape = Inr (X, y)"
    and "sklearn_shuffle indices X y = Inr (X', y')"
  shows "labelled_by_directory w image_shape dir X' y'"
proof -
  from assms(2) have eq: "length X = length y" and rng: "\<forall>i \<in> set indices. i < length X"
    and X': "X' = map (\<lambda>i. X ! i) indices" and y': "y' = map (\<lambda>i. y ! i) indices"
    unfolding sklearn_shuffle_Inr by blast+
  have step: "case list_data_files w (os_path_join dir (if y' ! i then ''1'' else ''0'')) of
           Inl e \<Rightarrow> False
         | Inr files \<Rightarrow> list_ex (\<lambda>f. stored_row w image_shape f = Inr (X' ! i)) files"
    if "i < length X'" for i
  proof -
    from that have i: "i < length indices" by (simp add: X')
    then have j: "indices ! i < length X" using rng by simp
    from load_split_labelled [OF assms(1) j] i show ?thesis
      by (auto simp: X' y' list_ex_iff)
  qed
  have len: "length y' = length X'" by (simp add: X' y')
  show ?thesis
    unfolding labelled_by_directory_def list_all_iff
  proof (intro conjI ballI)
    show "length y' = length X'" by (rule len)
  next
    fix i
    assume "i \<in> set [0..<length X']"
    then have "i < length X'" by simp
    then show "case list_data_files w (os_path_join dir (if y' ! i then ''1'' else ''0'')) of
           Inl e \<Rightarrow> False
         | Inr files \<Rightarrow> list_ex (\<lambda>f. stored_row w image_shape f = Inr (X' ! i)) files"
      by (rule step)
  qed
qed

lemma create_data_generators_Inr:
  "create_data_generators w draw_train draw_val train_dir val_dir image_shape batch_size =
     Inr (train_generator, val_generator) \<longleftrightarrow>
   (\<exists>X_train y_train X_val y_val.
      load_split w train_dir image_shape = Inr (X_train, y_train) \<and>
      sklearn_shuffle draw_train X_train y_train =
        Inr (flow_X train_generator, flow_y train_generator) \<and>
      load_split w val_dir image_shape = Inr (X_val, y_val) \<and>
      sklearn_shuffle draw_val X_val y_val =
        Inr (flow_X val_generator, flow_y val_generator) \<and>
      flow_datagen train_generator = ImageDataGenerator
            [(''rotation_range'', Num 30),
             (''width_shift_range'', Num 0.125),
             (''height_shift_range'', Num 0.125),
             (''depth_shift_range'', Num 0.125),
             (''zoom_range'', Num 0.125),
             (''horizontal_flip'', Flag True),
             (''vertical_flip'', Flag False),
             (''depth_flip'', Flag False)] \<and>
      flow_datagen val_generator = ImageDataGenerator [] \<and>
      flow_batch_size train_generator = batch_size \<and>
      flow_batch_size val_generator = batch_size \<and>
      flow_call.more train_generator = () \<and> flow_call.more val_generator = ())"
  unfolding create_data_generators_def Let_def flow_def
  by (cases train_generator; cases val_generator)
     (auto split: sum.splits prod.splits)

text \<open>
  Claim C1. In every run of \<open>create_data_generators\<close> that returns, for the training
  and for the validation directory alike: before the shuffle \<open>y\<close> has one \<open>False\<close>
  per file listed under the subdirectory \<^verbatim>\<open>0\<close> followed by one \<open>True\<close> per file
  listed under \<^verbatim>\<open>1\<close>, in the order of the rows of \<open>X\<close>, which hold the volumes
  loaded from these files; and in the arrays the generator is given, which are these
  after the shuffle, every row is the volume loaded from a file listed under the
  subdirectory that its label names (\<^verbatim>\<open>0\<close> for \<open>False\<close>, \<^verbatim>\<open>1\<close> for \<open>True\<close>).
\<close>

theorem labels_match_subdirectory:
  assumes "create_data_generators w draw_train draw_val train_dir val_dir image_shape
      batch_size = Inr (train_generator, val_generator)"
  shows "(\<exists>X_train y_train.
        load_split w train_dir image_shape = Inr (X_train, y_train) \<and>
        ordered_by_label w image_shape train_dir X_train y_train \<and>
        sklearn_shuffle draw_train X_train y_train =
          Inr (flow_X train_generator, flow_y train_generator)) \<and>
     (\<exists>X_val y_val.
        load_split w val_dir image_shape = Inr (X_val, y_val) \<and>
        ordered_by_label w image_shape val_dir X_val y_val \<and>
        sklearn_shuffle draw_val X_val y_val =
          Inr (flow_X val_generator, flow_y val_generator)) \<and>
     labelled_by_directory w image_shape train_dir
       (flow_X train_generator) (flow_y train_generator) \<and>
     labelled_by_directory w image_shape val_dir
       (flow_X val_generator) (flow_y val_generator)"
proof -
  from assms obtain X_train y_train X_val y_val where
    lt: "load_split w train_dir image_shape = Inr (X_train, y_train)" and
    st: "sklearn_shuffle draw_train X_train y_train =
           Inr (flow_X train_generator, flow_y train_generator)" and
    lv: "load_split w val_dir image_shape = Inr (X_val, y_val)" and
    sv: "sklearn_shuffle draw_val X_val y_val =
           Inr (flow_X val_generator, flow_y val_generator)"
    unfolding create_data_generators_Inr by blast
  from lt st load_split_ordered [OF lt] have
    "\<exists>X_train y_train.
        load_split w train_dir image_shape = Inr (X_train, y_train) \<and>
        ordered_by_label w image_shape train_dir X_train y_train \<and>
        sklearn_shuffle draw_train X_train y_train =
          Inr (flow_X train_generator, flow_y train_generator)" by blast
  moreover from lv sv load_split_ordered [OF lv] have
    "\<exists>X_val y_val.
        load_split w val_dir image_shape = Inr (X_val, y_val) \<and>
        ordered_by_label w image_shape val_dir X_val y_val \<and>
        sklearn_shuffle draw_val X_val y_val =
          Inr (flow_X val_generator, flow_y val_generator)" by blast
  moreover note shuffled_split_labelled [OF lt st] shuffled_split_labelled [OF lv sv]
  ultimately show ?thesis by blast
qed

theorem labels_match_subdirectory_witness:
  "labelled_by_directory example_world [32, 32, 64, 1] example_train_dir
     [example_train_dir @ ''/1/s/c.npy'', example_train_dir @ ''/0/a.npy'',
      example_train_dir @ ''/1/b.npy'']
     [True, False, True] \<and>
   labelled_by_directory example_world [32, 32, 64, 1] example_val_dir
     [example_val_dir @ ''/0/a.npy'', example_val_dir @ ''/1/b.npy'',
      example_val_dir @ ''/1/s/c.npy'']
     [False, True, True]"
  using labels_match_subdirectory [OF example_generators [of 16]]
  by (simp add: flow_def)

text \<open>
  The two generators differ in their constructor arguments only: the validation
  generator is made without any, and wraps the shuffled validation arrays.
\<close>

lemma validation_generator_has_no_arguments:
  assumes "create_data_generators w draw_train draw_val train_dir val_dir image_shape
      batch_size = Inr (train_generator, val_generator)"
  shows "flow_datagen val_generator = ImageDataGenerator [] \<and>
     flow_datagen train_generator \<noteq> ImageDataGenerator [] \<and>
     (\<exists>X_val y_val. load_split w val_dir image_shape = Inr (X_val, y_val) \<and>
        sklearn_shuffle draw_val X_val y_val =
          Inr (flow_X val_generator, flow_y val_generator))"
  using assms unfolding create_data_generators_Inr by auto

subsection \<open>The residual block\<close>

text \<open>The graph of a block: the sum of the transformed path and the shortcut.\<close>

lemma res_block_graph:
  "\<exists>shortcut.
     res_block input_tensor nb_filters block subsample_factor =
       elementwise_sum (transformed_path nb_filters subsample_factor input_tensor) shortcut \<and>
     (subsample_factor = 1 \<longrightarrow> shortcut = input_tensor) \<and>
     (subsample_factor > 1 \<longrightarrow>
        shortcut = projection1x1x1 nb_filters subsample_factor input_tensor)"
  by (simp add: res_block_def elementwise_sum_def transformed_path_def conv3x3x3_def
      projection1x1x1_def relu_def batch_norm_def Let_def)

text \<open>
  The shape of a block on an input with three spatial axes and \<open>c\<close> channels: with
  the identity as shortcut the two paths of the sum have \<open>nf\<close> and \<open>c\<close> channels, and
  the framework refuses the sum unless these are equal.
\<close>

lemma shape_of_res_block:
  assumes "shape_of x = Inr [d1, d2, d3, c]" and "1 \<le> s"
  shows "shape_of (res_block x nf b s) =
     (if s = 1 \<and> c \<noteq> nf
      then Inl (ValueError ''Only layers of same output shape can be merged'')
      else Inr [(d1 + s - 1) div s, (d2 + s - 1) div s, (d3 + s - 1) div s, nf])"
  using assms
  by (auto simp: res_block_def Let_def merge_shape_def conv_output_length_def)

lemma res_block_call_Inr:
  "res_block_call t nf b s = Inr g \<longleftrightarrow>
     (\<exists>sh. shape_of (res_block t nf b s) = Inr sh) \<and> g = res_block t nf b s"
  by (auto simp: res_block_call_def split: sum.splits)

text \<open>
  Claim C3 says that \<open>res_block\<close> returns the sum for every input tensor and every
  subsample factor. On an input with 16 channels, 32 filters and the factor 1 it
  returns nothing: the shortcut is the input, with 16 channels, the transformed path
  has 32, and the merge raises.
\<close>

theorem res_block_raises_on_unequal_shapes:
  "res_block_call (Input [8, 8, 16, 16]) 32 1 1 =
     Inl (ValueError ''Only layers of same output shape can be merged'')"
  by (simp add: res_block_call_def res_block_def Let_def merge_shape_def
      conv_output_length_def)

text \<open>
  Claim C3, amended. Whenever the call of \<open>res_block\<close> returns, it returns the
  elementwise sum of a transformed path and a shortcut. The transformed path is batch
  normalization, ReLU, a 3x3x3 convolution with the subsample factor as its stride,
  batch normalization, ReLU and a 3x3x3 convolution with stride 1, applied to the
  input in this order. The shortcut is the input itself when the factor is 1, and a
  1x1x1 convolution of the input with the factor as its stride when the factor is
  greater than 1. On an input with three spatial axes and a channel axis, all of
  positive length, with a positive number of filters and a factor of at least 1, the
  call returns exactly when the factor is greater than 1 or the input has as many
  channels as the block has filters.
\<close>

theorem res_block_call_structure:
  "(res_block_call input_tensor nb_filters block subsample_factor = Inr g \<longrightarrow>
      (\<exists>shortcut.
         g = elementwise_sum
               (transformed_path nb_filters subsample_factor input_tensor) shortcut \<and>
         (subsample_factor = 1 \<longrightarrow> shortcut = input_tensor) \<and>
         (subsample_factor > 1 \<longrightarrow>
            shortcut = projection1x1x1 nb_filters subsample_factor input_tensor))) \<and>
   (shape_of input_tensor = Inr [d1, d2, d3, c] \<and> 0 < d1 \<and> 0 < d2 \<and> 0 < d3 \<and> 0 < c \<and>
    0 < nb_filters \<and> 1 \<le> subsample_factor \<longrightarrow>
      ((\<exists>g. res_block_call input_tensor nb_filters block subsample_factor = Inr g) \<longleftrightarrow>
       (subsample_factor > 1 \<or> c = nb_filters)))"
proof (intro conjI impI)
  assume "res_block_call input_tensor nb_filters block subsample_factor = Inr g"
  then have "g = res_block input_tensor nb_filters block subsample_factor"
    by (simp add: res_block_call_Inr)
  with res_block_graph [of input_tensor nb_filters block subsample_factor]
  show "\<exists>shortcut.
         g = elementwise_sum
               (transformed_path nb_filters subsample_factor input_tensor) shortcut \<and>
         (subsample_factor = 1 \<longrightarrow> shortcut = input_tensor) \<and>
         (subsample_factor > 1 \<longrightarrow>
            shortcut = projection1x1x1 nb_filters subsample_factor input_tensor)"
    by simp
next
  assume a: "shape_of input_tensor = Inr [d1, d2, d3, c] \<and> 0 < d1 \<and> 0 < d2 \<and> 0 < d3 \<and>
    0 < c \<and> 0 < nb_filters \<and> 1 \<le> subsample_factor"
  then have sh: "shape_of input_tensor = Inr [d1, d2, d3, c]" and s: "1 \<le> subsample_factor"
    by simp_all
  show "(\<exists>g. res_block_call input_tensor nb_filters block subsample_factor = Inr g) \<longleftrightarrow>
       (subsample_factor > 1 \<or> c = nb_filters)"
    unfolding res_block_call_Inr shape_of_res_block [OF sh s] using s by auto
qed

theorem res_block_call_structure_witness:
  "res_block_call (Input [8, 8, 16, 16]) 32 1 2 =
     Inr (elementwise_sum (transformed_path 32 2 (Input [8, 8, 16, 16]))
            (projection1x1x1 32 2 (Input [8, 8, 16, 16])))"
proof -
  have sh: "shape_of (Input [8, 8, 16, 16]) = Inr [8, 8, 16, 16]" by simp
  from res_block_call_structure [of "Input [8, 8, 16, 16]" 32 1 2 _ 8 8 16 16] sh
  obtain g where g: "res_block_call (Input [8, 8, 16, 16]) 32 1 2 = Inr g" by auto
  from res_block_call_structure [of "Input [8, 8, 16, 16]" 32 1 2 g] g
  have "g = elementwise_sum (transformed_path 32 2 (Input [8, 8, 16, 16]))
            (projection1x1x1 32 2 (Input [8, 8, 16, 16]))" by auto
  with g show ?thesis by simp
qed

subsection \<open>The model\<close>

text \<open>Reading the blocks back finds each block that \<open>res_block\<close> adds, with the width
  and the stride it was called with.\<close>

lemma blocks_res_block:
  "blocks (res_block x nf b s) = blocks x @ [Some (nf, s, s, s)]"
  by (simp add: res_block_def Let_def block_of_def numeral_3_eq_3)

lemma blocks_stage:
  "blocks (stage w b s x) =
     blocks x @ [Some (w, s, s, s), Some (w, 1, 1, 1), Some (w, 1, 1, 1)]"
  by (simp add: stage_def blocks_res_block)

lemma define_model_stages:
  "model_output (define_model image_shape) =
     head (stage 128 3 2 (stage 64 2 2 (stage 32 1 2 (stage 16 0 1
       (initial_convolution (Input image_shape))))))"
  by (simp add: define_model_def Let_def head_def stage_def initial_convolution_def
      relu_def batch_norm_def)

lemma blocks_define_model:
  "blocks (model_output (define_model image_shape)) =
     [Some (16, 1, 1, 1), Some (16, 1, 1, 1), Some (16, 1, 1, 1),
      Some (32, 2, 2, 2), Some (32, 1, 1, 1), Some (32, 1, 1, 1),
      Some (64, 2, 2, 2), Some (64, 1, 1, 1), Some (64, 1, 1, 1),
      Some (128, 2, 2, 2), Some (128, 1, 1, 1), Some (128, 1, 1, 1)]"
  unfolding define_model_stages
  by (simp add: head_def relu_def batch_norm_def blocks_stage initial_convolution_def)

text \<open>
  Claim C4 says that each of the four stages has exactly one strided block. The first
  stage, of width 16, has none: its three blocks are all called with
  \<^verbatim>\<open>subsample_factor=1\<close>.
\<close>

theorem first_stage_has_no_strided_block:
  "strided_blocks 16 (model_output (define_model [32, 32, 64, 1])) \<noteq> 1"
  by (simp add: strided_blocks_def stage_strides_def blocks_define_model
      List.map_filter_simps)

text \<open>
  Claim C4, amended. The model is an initial convolution followed by four stages of
  three residual blocks each, of widths 16, 32, 64 and 128, followed by normalization,
  ReLU, average pooling, flattening and one sigmoid output unit. The stage of width 16
  has no strided block; each of the stages of width 32, 64 and 128 has exactly one
  strided block, its first, with subsample factor 2.
\<close>

theorem define_model_architecture:
  "model_input (define_model image_shape) = Input image_shape \<and>
   model_output (define_model image_shape) =
     head (stage 128 3 2 (stage 64 2 2 (stage 32 1 2 (stage 16 0 1
       (initial_convolution (Input image_shape)))))) \<and>
   stage_strides 16 (model_output (define_model image_shape)) =
     [(1, 1, 1), (1, 1, 1), (1, 1, 1)] \<and>
   stage_strides 32 (model_output (define_model image_shape)) =
     [(2, 2, 2), (1, 1, 1), (1, 1, 1)] \<and>
   stage_strides 64 (model_output (define_model image_shape)) =
     [(2, 2, 2), (1, 1, 1), (1, 1, 1)] \<and>
   stage_strides 128 (model_output (define_model image_shape)) =
     [(2, 2, 2), (1, 1, 1), (1, 1, 1)] \<and>
   strided_blocks 16 (model_output (define_model image_shape)) = 0 \<and>
   strided_blocks 32 (model_output (define_model image_shape)) = 1 \<and>
   strided_blocks 64 (model_output (define_model image_shape)) = 1 \<and>
   strided_blocks 128 (model_output (define_model image_shape)) = 1"
proof -
  have i: "model_input (define_model image_shape) = Input image_shape"
    by (simp add: define_model_def Let_def)
  have s: "stage_strides 16 (model_output (define_model image_shape)) =
     [(1, 1, 1), (1, 1, 1), (1, 1, 1)]"
   "stage_strides 32 (model_output (define_model image_shape)) =
     [(2, 2, 2), (1, 1, 1), (1, 1, 1)]"
   "stage_strides 64 (model_output (define_model image_shape)) =
     [(2, 2, 2), (1, 1, 1), (1, 1, 1)]"
   "stage_strides 128 (model_output (define_model image_shape)) =
     [(2, 2, 2), (1, 1, 1), (1, 1, 1)]"
    by (simp_all add: stage_strides_def blocks_define_model List.map_filter_simps)
  have c: "strided_blocks 16 (model_output (define_model image_shape)) = 0"
   "strided_blocks 32 (model_output (define_model image_shape)) = 1"
   "strided_blocks 64 (model_output (define_model image_shape)) = 1"
   "strided_blocks 128 (model_output (define_model image_shape)) = 1"
    by (simp_all add: strided_blocks_def s)
  from i define_model_stages s c show ?thesis by simp
qed

text \<open>
  For the image shape of the entry point every sum of the graph adds tensors of one
  shape, the feature map that reaches the pooling is exactly one pool wide, and the
  output is one number per volume.
\<close>

lemma shape_of_stage:
  assumes "shape_of x = Inr [d1, d2, d3, c]" and "s = 2 \<or> s = 1 \<and> c = w"
  shows "shape_of (stage w b s x) =
     Inr [(d1 + s - 1) div s, (d2 + s - 1) div s, (d3 + s - 1) div s, w]"
proof -
  from assms have 1: "shape_of (res_block x w b s) =
      Inr [(d1 + s - 1) div s, (d2 + s - 1) div s, (d3 + s - 1) div s, w]"
    by (subst shape_of_res_block [OF assms(1)]) auto
  have 2: "shape_of (res_block (res_block x w b s) w b 1) =
      Inr [(d1 + s - 1) div s, (d2 + s - 1) div s, (d3 + s - 1) div s, w]"
    by (subst shape_of_res_block [OF 1]) auto
  show ?thesis
    unfolding stage_def by (subst shape_of_res_block [OF 2]) auto
qed

lemma define_model_shapes:
  "shape_of (stage 128 3 2 (stage 64 2 2 (stage 32 1 2 (stage 16 0 1
       (initial_convolution (Input [32, 32, 64, 1])))))) = Inr [4, 4, 8, 128] \<and>
   shape_of (model_output (define_model [32, 32, 64, 1])) = Inr [1]"
proof -
  have 0: "shape_of (initial_convolution (Input [32, 32, 64, 1])) = Inr [32, 32, 64, 16]"
    by (simp add: initial_convolution_def conv_output_length_def)
  have 1: "shape_of (stage 16 0 1 (initial_convolution (Input [32, 32, 64, 1]))) =
      Inr [32, 32, 64, 16]"
    by (subst shape_of_stage [OF 0]) auto
  have 2: "shape_of (stage 32 1 2 (stage 16 0 1 (initial_convolution (Input [32, 32, 64, 1]))))
      = Inr [16, 16, 32, 32]"
    by (subst shape_of_stage [OF 1]) auto
  have 3: "shape_of (stage 64 2 2 (stage 32 1 2 (stage 16 0 1
      (initial_convolution (Input [32, 32, 64, 1]))))) = Inr [8, 8, 16, 64]"
    by (subst shape_of_stage [OF 2]) auto
  have 4: "shape_of (stage 128 3 2 (stage 64 2 2 (stage 32 1 2 (stage 16 0 1
      (initial_convolution (Input [32, 32, 64, 1])))))) = Inr [4, 4, 8, 128]"
    by (subst shape_of_stage [OF 3]) auto
  have 5: "shape_of (model_output (define_model [32, 32, 64, 1])) = Inr [1]"
    unfolding define_model_stages head_def relu_def batch_norm_def shape_of.simps 4
    by (simp add: conv_output_length_def)
  from 4 5 show ?thesis by simp
qed

subsection \<open>The output of the model\<close>

lemma sigmoid_bounds: "0 < sigmoid z" "sigmoid z < 1"
  by (simp_all add: sigmoid_def add_pos_pos)

lemma sigmoid_f_NaN: "sigmoid_f z = NaN \<longleftrightarrow> z = NaN"
  by (cases z) simp_all

lemma sigmoid_f_unit: "z \<noteq> NaN \<Longrightarrow> in_unit_interval (sigmoid_f z)"
  using sigmoid_bounds by (cases z) (simp_all add: less_imp_le)

lemma define_model_output:
  "eval_tensor P v (model_output (define_model image_shape)) =
     [sigmoid_f (output_preactivation P v (model_output (define_model image_shape)))]"
  unfolding define_model_stages head_def by (simp add: activation_def)

text \<open>The example kernels carry not-a-number from the input of a block to its output.\<close>

lemma example_layer:
  "NaN \<in> set (eval_tensor example_params v t) \<Longrightarrow>
     eval_tensor example_params v (batch_norm t) = [NaN] \<and>
     eval_tensor example_params v (relu t) = [NaN] \<and>
     eval_tensor example_params v (conv3x3x3 nf s t) = [NaN] \<and>
     eval_tensor example_params v (projection1x1x1 nf s t) = [NaN] \<and>
     eval_tensor example_params v (initial_convolution t) = [NaN]"
  by (simp add: example_params_def batch_norm_def relu_def conv3x3x3_def
      projection1x1x1_def initial_convolution_def)

lemma example_res_block:
  assumes "NaN \<in> set (eval_tensor example_params v x)"
  shows "eval_tensor example_params v (res_block x nf b s) = [NaN]"
proof -
  have n: "NaN \<in> set [NaN]" by simp
  have 1: "eval_tensor example_params v (batch_norm x) = [NaN]"
    using example_layer [OF assms] by simp
  have 2: "eval_tensor example_params v (relu (batch_norm x)) = [NaN]"
    using example_layer [of v "batch_norm x"] n unfolding 1 by simp
  have 3: "eval_tensor example_params v (conv3x3x3 nf s (relu (batch_norm x))) = [NaN]"
    using example_layer [of v "relu (batch_norm x)"] n unfolding 2 by simp
  have 4: "eval_tensor example_params v (batch_norm (conv3x3x3 nf s (relu (batch_norm x))))
      = [NaN]"
    using example_layer [of v "conv3x3x3 nf s (relu (batch_norm x))"] n unfolding 3 by simp
  have 5: "eval_tensor example_params v
      (relu (batch_norm (conv3x3x3 nf s (relu (batch_norm x))))) = [NaN]"
    using example_layer [of v "batch_norm (conv3x3x3 nf s (relu (batch_norm x)))"] n
    unfolding 4 by simp
  have 6: "eval_tensor example_params v (transformed_path nf s x) = [NaN]"
    unfolding transformed_path_def
    using example_layer [of v "relu (batch_norm (conv3x3x3 nf s (relu (batch_norm x))))"] n
    unfolding 5 by simp
  obtain shortcut where g: "res_block x nf b s =
      elementwise_sum (transformed_path nf s x) shortcut"
    using res_block_graph [of x nf b s] by blast
  show ?thesis
    unfolding g elementwise_sum_def by (simp add: 6) (simp add: example_params_def)
qed

lemma example_stage:
  assumes "NaN \<in> set (eval_tensor example_params v x)"
  shows "eval_tensor example_params v (stage w b s x) = [NaN]"
proof -
  have n: "NaN \<in> set [NaN]" by simp
  have 1: "eval_tensor example_params v (res_block x w b s) = [NaN]"
    by (rule example_res_block [OF assms])
  have 2: "eval_tensor example_params v (res_block (res_block x w b s) w b 1) = [NaN]"
    by (rule example_res_block) (simp add: 1)
  show ?thesis
    unfolding stage_def by (rule example_res_block) (simp add: 2)
qed

text \<open>
  Claim C8 says that the output is in the closed interval from 0 to 1 for every input
  volume. For a volume of the entry point's shape whose numbers are all not-a-number,
  and kernels that compute on it as arithmetic does, the output is not-a-number,
  which is no number of the interval.
\<close>

theorem model_output_of_nan_volume:
  "eval_tensor example_params (replicate (32 * 32 * 64 * 1) NaN)
       (model_output (define_model [32, 32, 64, 1])) = [NaN] \<and>
   \<not> in_unit_interval NaN"
proof -
  let ?v = "replicate (32 * 32 * 64 * 1) NaN"
  let ?E = "eval_tensor example_params ?v"
  have n: "NaN \<in> set [NaN]" by simp
  have 0: "?E (initial_convolution (Input [32, 32, 64, 1])) = [NaN]"
    using example_layer [of ?v "Input [32, 32, 64, 1]"] by simp
  have 1: "?E (stage 16 0 1 (initial_convolution (Input [32, 32, 64, 1]))) = [NaN]"
    by (rule example_stage) (simp only: 0 n)
  have 2: "?E (stage 32 1 2 (stage 16 0 1 (initial_convolution (Input [32, 32, 64, 1]))))
      = [NaN]"
    by (rule example_stage) (simp only: 1 n)
  have 3: "?E (stage 64 2 2 (stage 32 1 2 (stage 16 0 1
      (initial_convolution (Input [32, 32, 64, 1]))))) = [NaN]"
    by (rule example_stage) (simp only: 2 n)
  have 4: "?E (stage 128 3 2 (stage 64 2 2 (stage 32 1 2 (stage 16 0 1
      (initial_convolution (Input [32, 32, 64, 1])))))) = [NaN]"
    by (rule example_stage) (simp only: 3 n)
  have "?E (model_output (define_model [32, 32, 64, 1])) = [NaN]"
    unfolding define_model_stages head_def relu_def batch_norm_def
    using 4
    by (simp add: activation_def preactivation_def fsum_def)
       (simp add: example_params_def)
  then show ?thesis by simp
qed

text \<open>
  Claim C8, amended. Whatever the layers before the output layer compute and whatever
  the weights are, the model's output for an input volume is one value, the sigmoid
  of the pre-activation of the one output unit. It is not-a-number exactly when that
  pre-activation is, and otherwise it is a number of the closed interval from 0 to 1.
\<close>

theorem model_output_nan_or_unit_interval:
  "\<exists>y. eval_tensor P v (model_output (define_model image_shape)) = [y] \<and>
     y = sigmoid_f (output_preactivation P v (model_output (define_model image_shape))) \<and>
     (y = NaN \<longleftrightarrow>
        output_preactivation P v (model_output (define_model image_shape)) = NaN) \<and>
     (y \<noteq> NaN \<longrightarrow> in_unit_interval y)"
  using sigmoid_f_unit
  by (auto simp: define_model_output sigmoid_f_NaN)

theorem model_output_nan_or_unit_interval_witness:
  "eval_tensor
     \<lparr>layer_fn = (\<lambda>node ins. [Finite 0]), dense_W = (\<lambda>node j. [Finite 1]),
      dense_b = (\<lambda>node j. Finite 0)\<rparr>
     (replicate (32 * 32 * 64 * 1) (Finite 0))
     (model_output (define_model [32, 32, 64, 1])) = [Finite (1 / 2)] \<and>
   Finite (1 / 2) \<noteq> NaN \<and> in_unit_interval (Finite (1 / 2))"
proof -
  let ?P = "\<lparr>layer_fn = (\<lambda>node ins. [Finite 0]), dense_W = (\<lambda>node j. [Finite 1]),
      dense_b = (\<lambda>node j. Finite 0)\<rparr>"
  let ?v = "replicate (32 * 32 * 64 * 1) (Finite 0)"
  have z: "output_preactivation ?P ?v (model_output (define_model [32, 32, 64, 1]))
      = Finite 0"
    unfolding define_model_stages head_def
    by (simp add: preactivation_def fsum_def)
  from model_output_nan_or_unit_interval [of ?P ?v "[32, 32, 64, 1]"]
  obtain y where y: "eval_tensor ?P ?v (model_output (define_model [32, 32, 64, 1])) = [y]"
    and e: "y = sigmoid_f (output_preactivation ?P ?v
        (model_output (define_model [32, 32, 64, 1])))"
    and u: "y \<noteq> NaN \<longrightarrow> in_unit_interval y"
    by blast
  from e have "y = Finite (1 / 2)" unfolding z by (simp add: sigmoid_def)
  with y u show ?thesis by simp
qed

subsection \<open>The training driver\<close>

text \<open>
  Claim C7. \<open>train\<close> is one call of the framework's \<^verbatim>\<open>fit_generator\<close> on the
  model, with the training generator, the validation generator and the numbers of the
  configuration passed through, and with exactly two callbacks: a checkpointer on the
  weights file that monitors the validation loss and saves only the best model, and
  an early stopping that monitors the validation loss with a patience of 10.
\<close>

theorem train_installs_two_callbacks:
  "fit_callbacks (train model train_generator val_generator weights_filepath
       (batch_size, nb_epoch, samples_per_epoch, nb_val_samples)) =
     [ModelCheckpoint weights_filepath ''val_loss'' 2 True,
      EarlyStopping ''val_loss'' 10 2] \<and>
   length (fit_callbacks (train model train_generator val_generator weights_filepath
       (batch_size, nb_epoch, samples_per_epoch, nb_val_samples))) = 2 \<and>
   train model train_generator val_generator weights_filepath
       (batch_size, nb_epoch, samples_per_epoch, nb_val_samples) =
     \<lparr>fit_model = model, fit_generator = train_generator,
      fit_samples_per_epoch = samples_per_epoch, fit_nb_epoch = nb_epoch,
      fit_verbose = 2,
      fit_callbacks = [ModelCheckpoint weights_filepath ''val_loss'' 2 True,
                       EarlyStopping ''val_loss'' 10 2],
      fit_validation_data = val_generator, fit_nb_val_samples = nb_val_samples,
      fit_class_weight = None, fit_max_q_size = 20, fit_nb_worker = 4,
      fit_pickle_safe = False, fit_initial_epoch = 0\<rparr>"
  by (simp add: train_def ModelCheckpoint_default_monitor_def)

subsection \<open>The entry point\<close>

lemma io_bind_Inr:
  "io_bind m f = (t, Inr y) \<longleftrightarrow>
     (\<exists>t1 x t2. m = (t1, Inr x) \<and> f x = (t2, Inr y) \<and> t = t1 @ t2)"
  by (cases m; cases "snd m") (auto simp: io_bind_def split: prod.splits sum.splits)

lemma io_do_Inr: "io_do ev r = (t, Inr x) \<longleftrightarrow> t = [ev] \<and> r = Inr x"
  by (auto simp: io_do_def)

lemma io_pure_Inr: "io_pure r = (t, Inr x) \<longleftrightarrow> t = [] \<and> r = Inr x"
  by (auto simp: io_pure_def)

lemma json_not_bound: "lookup_name module_globals ''json'' = Inl (NameError ''json'')"
  by (simp add: lookup_name_def module_globals_def)

text \<open>
  Claim C5 says that the main block reads the settings file once at startup and then
  counts the samples and wires up the generators, the model and the training. As the
  script is written it does not get that far: the module never imports \<^verbatim>\<open>json\<close>,
  so after opening the settings file the evaluation of \<^verbatim>\<open>json.load(f)\<close> raises
  \<^verbatim>\<open>NameError\<close>. Every run of the main block is the opening of the settings file
  followed by an exception: \<^verbatim>\<open>FileNotFoundError\<close> when the file is missing,
  \<^verbatim>\<open>NameError\<close> otherwise.
\<close>

theorem main_stops_at_json:
  "main w draw_train draw_val =
     ([Open ''../../SETTINGS.json''],
      Inl (case read_text w ''../../SETTINGS.json'' of
             None \<Rightarrow> FileNotFoundError ''../../SETTINGS.json''
           | Some text \<Rightarrow> NameError ''json''))"
  by (simp add: main_def main_with_def io_bind_def io_do_def io_pure_def open_read_def
      json_not_bound SETTINGS_FILE_PATH_def split: option.splits)

text \<open>
  With the name \<^verbatim>\<open>json\<close> bound the main block can run to its end, and a run that
  does is the following: the settings file is opened and loaded first, once, then the
  weights directory is made, the files are counted, and the generators, the model and
  the training call are set up.
\<close>

lemma main_with_Inr:
  "main_with globals w draw_train draw_val = (t, Inr fit) \<longleftrightarrow>
   (\<exists>body settings train_files val_files f1 f2 f3 f4 train_generator val_generator.
      read_text w SETTINGS_FILE_PATH = Some body \<and>
      ''json'' \<in> set globals \<and>
      json_load w body = Inr settings \<and>
      os_makedirs w (os_path_join (BASEPATH w) ''weights/stage1/sex_det'') = Inr () \<and>
      list_data_files w (main_train_dir w) = Inr train_files \<and>
      list_data_files w (main_val_dir w) = Inr val_files \<and>
      list_data_files w (main_train_dir w @ ''/0'') = Inr f1 \<and>
      list_data_files w (main_train_dir w @ ''/1'') = Inr f2 \<and>
      list_data_files w (main_val_dir w @ ''/0'') = Inr f3 \<and>
      list_data_files w (main_val_dir w @ ''/1'') = Inr f4 \<and>
      create_data_generators w draw_train draw_val (main_train_dir w) (main_val_dir w)
        [32, 32, 64, 1] (fst (training_config (length train_files) (length val_files))) =
        Inr (train_generator, val_generator) \<and>
      fit = train (define_model [32, 32, 64, 1]) train_generator val_generator
        (main_weights_filepath w) (training_config (length train_files) (length val_files)) \<and>
      t = [Open SETTINGS_FILE_PATH, JsonLoad,
           Makedirs (os_path_join (BASEPATH w) ''weights/stage1/sex_det''),
           CountFiles (main_train_dir w), CountFiles (main_val_dir w),
           CountFiles (main_train_dir w @ ''/0''), CountFiles (main_train_dir w @ ''/1''),
           CountFiles (main_val_dir w @ ''/0''), CountFiles (main_val_dir w @ ''/1''),
           CreateDataGenerators, DefineModel, Train])"
  unfolding main_with_def Let_def io_bind_Inr io_do_Inr io_pure_Inr
  by (auto simp: open_read_def lookup_name_def io_bind_Inr io_do_Inr
      split: option.splits if_splits prod.splits)

lemma main_with_success:
  assumes "main_with globals w draw_train draw_val = (t, Inr fit)"
  obtains train_files val_files train_generator val_generator where
    "list_data_files w (main_train_dir w) = Inr train_files"
    "list_data_files w (main_val_dir w) = Inr val_files"
    "fit = train (define_model [32, 32, 64, 1]) train_generator val_generator
       (main_weights_filepath w) (training_config (length train_files) (length val_files))"
  using assms unfolding main_with_Inr by blast



text \<open>
  The main block passes the lengths of the two listings to these lines: in a run of
  the main block that reaches the training call, the call gets these numbers for the
  files listed under the training and the validation directory. With the module's own
  names there is no such run, since the block stops at \<^verbatim>\<open>json.load\<close>; the lemma is
  about the block run with any names.
\<close>

lemma main_with_sample_counts:
  assumes "main_with globals w draw_train draw_val = (t, Inr fit)"
  shows "\<exists>train_files val_files.
      list_data_files w (main_train_dir w) = Inr train_files \<and>
      list_data_files w (main_val_dir w) = Inr val_files \<and>
      fit_samples_per_epoch fit = 16 * (int (length train_files) div 16) \<and>
      fit_nb_val_samples fit = 16 * (int (length val_files) div 16) \<and>
      16 dvd fit_samples_per_epoch fit \<and>
      fit_samples_per_epoch fit \<le> int (length train_files) \<and>
      (\<forall>m. 16 dvd m \<and> m \<le> int (length train_files) \<longrightarrow> m \<le> fit_samples_per_epoch fit) \<and>
      (length train_files < 16 \<longrightarrow> fit_samples_per_epoch fit = 0) \<and>
      16 dvd fit_nb_val_samples fit \<and>
      fit_nb_val_samples fit \<le> int (length val_files) \<and>
      (\<forall>m. 16 dvd m \<and> m \<le> int (length val_files) \<longrightarrow> m \<le> fit_nb_val_samples fit) \<and>
      (length val_files < 16 \<longrightarrow> fit_nb_val_samples fit = 0)"
  using assms
proof (rule main_with_success)
  fix train_files val_files :: "string list" and train_generator val_generator
  assume tr: "list_data_files w (main_train_dir w) = Inr train_files"
    and va: "list_data_files w (main_val_dir w) = Inr val_files"
    and fit: "fit = train (define_model [32, 32, 64, 1]) train_generator val_generator
       (main_weights_filepath w) (training_config (length train_files) (length val_files))"
  have spe: "fit_samples_per_epoch fit = 16 * (int (length train_files) div 16)"
    and nvs: "fit_nb_val_samples fit = 16 * (int (length val_files) div 16)"
    by (simp_all add: fit train_def training_config_def)
  have largest: "16 dvd 16 * (n div 16) \<and> 16 * (n div 16) \<le> n \<and>
      (\<forall>m. 16 dvd m \<and> m \<le> n \<longrightarrow> m \<le> 16 * (n div 16)) \<and>
      (n < 16 \<longrightarrow> 16 * (n div 16) = 0)" if "0 \<le> n" for n :: int
  proof (intro conjI allI impI)
    show "16 dvd 16 * (n div 16)" by simp
    show "16 * (n div 16) \<le> n" by presburger
    show "m \<le> 16 * (n div 16)" if "16 dvd m \<and> m \<le> n" for m
      using that by presburger
    show "16 * (n div 16) = 0" if "n < 16" using that \<open>0 \<le> n\<close> by simp
  qed
  from largest [of "int (length train_files)"] largest [of "int (length val_files)"]
    tr va spe nvs
  show ?thesis by (intro exI [of _ train_files] exI [of _ val_files]) simp
qed

lemma example_main_runs:
  "\<exists>t fit. main_with (''json'' # module_globals) example_world [2, 0, Suc 0] [0, Suc 0, 2]
     = (t, Inr fit)"
proof -
  have rt: "read_text example_world SETTINGS_FILE_PATH = Some ''{}''"
    and js: "json_load example_world ''{}'' = Inr []"
    and mk: "\<And>p. os_makedirs example_world p = Inr ()"
    by (simp_all add: example_world_def SETTINGS_FILE_PATH_def)
  obtain trf where trf: "list_data_files example_world example_train_dir = Inr trf"
    using example_counts(1) by blast
  obtain vaf where vaf: "list_data_files example_world example_val_dir = Inr vaf"
    using example_counts(2) by blast
  note f = example_label_dirs [OF example_tree_at(2,3)]
    example_label_dirs [OF example_tree_at(5,6)]
  note g = example_generators [of "fst (training_config (length trf) (length vaf))"]
  show ?thesis
    unfolding main_with_Inr example_paths
    using rt js mk trf vaf f g by auto
qed

lemma example_main_sample_counts:
  "\<exists>t fit. main_with (''json'' # module_globals) example_world [2, 0, Suc 0] [0, Suc 0, 2]
       = (t, Inr fit) \<and>
     fit_samples_per_epoch fit = 0 \<and> fit_nb_val_samples fit = 0"
proof -
  from example_main_runs obtain t fit where
    run: "main_with (''json'' # module_globals) example_world [2, 0, Suc 0] [0, Suc 0, 2]
       = (t, Inr fit)" by blast
  from main_with_sample_counts [OF run] obtain train_files val_files where
    tr: "list_data_files example_world (main_train_dir example_world) = Inr train_files"
    and va: "list_data_files example_world (main_val_dir example_world) = Inr val_files"
    and z: "length train_files < 16 \<longrightarrow> fit_samples_per_epoch fit = 0"
      "length val_files < 16 \<longrightarrow> fit_nb_val_samples fit = 0"
    by blast
  from tr va example_counts have "length train_files = 3" "length val_files = 3"
    unfolding example_paths by auto
  with z run show ?thesis by auto
qed

end
